theory Spec2Isabelle
  imports Main
begin

section \<open>Python values and the operations the exporters use on them\<close>

text \<open>
  The exporters work on the dictionaries that the AWS client returns. A value is one of
  the JSON-like Python objects below; a dictionary keeps its keys in insertion order.
  \<open>PTime\<close> is a datetime object, carried by the text that \<open>str\<close> gives for it.
\<close>

datatype pyval =
    PNone
  | PBool bool
  | PInt int
  | PStr string
  | PTime string
  | PList "pyval list"
  | PDict "(string \<times> pyval) list"

type_synonym pydict = "(string \<times> pyval) list"

text \<open>
  The exceptions that can occur. \<open>ClientError\<close> carries the service's error code; it is
  the only exception the fetch code catches. \<open>BotoCoreError\<close> stands for every other
  failure of a remote call.
\<close>

datatype error =
    ClientError string
  | BotoCoreError
  | KeyError
  | IndexError
  | AttributeError
  | TypeError
  | ValueError

definition ebind :: "error + 'a \<Rightarrow> ('a \<Rightarrow> error + 'b) \<Rightarrow> error + 'b" where
  "ebind m f = (case m of Inl e \<Rightarrow> Inl e | Inr x \<Rightarrow> f x)"

text \<open>Truth value of an object, as \<open>if x:\<close> and \<open>x or y\<close> read it.\<close>

fun py_truthy :: "pyval \<Rightarrow> bool" where
  "py_truthy PNone = False"
| "py_truthy (PBool b) = b"
| "py_truthy (PInt i) = (i \<noteq> 0)"
| "py_truthy (PStr s) = (s \<noteq> [])"
| "py_truthy (PTime t) = True"
| "py_truthy (PList xs) = (xs \<noteq> [])"
| "py_truthy (PDict kvs) = (kvs \<noteq> [])"

definition py_or :: "pyval \<Rightarrow> pyval \<Rightarrow> pyval" where
  "py_or x y = (if py_truthy x then x else y)"

text \<open>\<open>d.get(k, default)\<close> on a dictionary.\<close>

definition dict_get :: "pydict \<Rightarrow> string \<Rightarrow> pyval \<Rightarrow> pyval" where
  "dict_get d k dflt = (case map_of d k of None \<Rightarrow> dflt | Some v \<Rightarrow> v)"

text \<open>\<open>x.get(k, default)\<close> on any object: only a dictionary has the method.\<close>

fun py_get :: "pyval \<Rightarrow> string \<Rightarrow> pyval \<Rightarrow> error + pyval" where
  "py_get (PDict d) k dflt = Inr (dict_get d k dflt)"
| "py_get _ k dflt = Inl AttributeError"

text \<open>\<open>x[k]\<close> with a string key.\<close>

fun py_index :: "pyval \<Rightarrow> string \<Rightarrow> error + pyval" where
  "py_index (PDict d) k = (case map_of d k of None \<Rightarrow> Inl KeyError | Some v \<Rightarrow> Inr v)"
| "py_index _ k = Inl TypeError"

text \<open>\<open>x[0]\<close>. The keys of a dictionary are strings, so \<open>0\<close> is never one of them.\<close>

fun py_index0 :: "pyval \<Rightarrow> error + pyval" where
  "py_index0 (PList []) = Inl IndexError"
| "py_index0 (PList (x # xs)) = Inr x"
| "py_index0 (PStr []) = Inl IndexError"
| "py_index0 (PStr (c # cs)) = Inr (PStr [c])"
| "py_index0 (PDict d) = Inl KeyError"
| "py_index0 _ = Inl TypeError"

text \<open>The elements a \<open>for\<close> loop or a comprehension visits.\<close>

fun py_iter :: "pyval \<Rightarrow> error + pyval list" where
  "py_iter (PList xs) = Inr xs"
| "py_iter (PDict d) = Inr (map (\<lambda>kv. PStr (fst kv)) d)"
| "py_iter (PStr s) = Inr (map (\<lambda>c. PStr [c]) s)"
| "py_iter _ = Inl TypeError"

fun py_len :: "pyval \<Rightarrow> error + pyval" where
  "py_len (PList xs) = Inr (PInt (int (length xs)))"
| "py_len (PDict d) = Inr (PInt (int (length d)))"
| "py_len (PStr s) = Inr (PInt (int (length s)))"
| "py_len _ = Inl TypeError"

text \<open>\<open>sep.join(xs)\<close>: every element has to be a string.\<close>

fun join_strs :: "string \<Rightarrow> string list \<Rightarrow> string" where
  "join_strs sep [] = []"
| "join_strs sep [x] = x"
| "join_strs sep (x # y # ys) = x @ sep @ join_strs sep (y # ys)"

fun the_strs :: "pyval list \<Rightarrow> error + string list" where
  "the_strs [] = Inr []"
| "the_strs (PStr s # xs) = (case the_strs xs of Inl e \<Rightarrow> Inl e | Inr ss \<Rightarrow> Inr (s # ss))"
| "the_strs (_ # xs) = Inl TypeError"

definition py_join :: "string \<Rightarrow> pyval list \<Rightarrow> error + pyval" where
  "py_join sep xs = (case the_strs xs of Inl e \<Rightarrow> Inl e | Inr ss \<Rightarrow> Inr (PStr (join_strs sep ss)))"

text \<open>A list comprehension \<open>[f(x) for x in xs]\<close> whose body may raise.\<close>

fun comprehension :: "('a \<Rightarrow> error + 'b) \<Rightarrow> 'a list \<Rightarrow> error + 'b list" where
  "comprehension f [] = Inr []"
| "comprehension f (x # xs) =
     (case f x of Inl e \<Rightarrow> Inl e
      | Inr y \<Rightarrow> (case comprehension f xs of Inl e \<Rightarrow> Inl e | Inr ys \<Rightarrow> Inr (y # ys)))"

text \<open>
  Dictionary keys: lists and dictionaries are unhashable, and \<open>True\<close> and \<open>1\<close> are the
  same key.
\<close>

fun hashable :: "pyval \<Rightarrow> bool" where
  "hashable (PList xs) = False"
| "hashable (PDict d) = False"
| "hashable _ = True"

fun dict_key :: "pyval \<Rightarrow> pyval" where
  "dict_key (PBool b) = PInt (if b then 1 else 0)"
| "dict_key v = v"

section \<open>The exporter's surroundings and its state\<close>

text \<open>
  The remote operations, with the parameters the code passes. A continuation token is
  \<open>PNone\<close> on the first page.
\<close>

datatype request =
    ListInstances
  | DescribeUser pyval pyval
  | ListApplications int pyval
  | GetApplication pyval
  | ListLibraryItems pyval int pyval
  | GetLibraryItem pyval pyval
  | ListIndices pyval int
  | ListDataSources pyval pyval int pyval
  | GetDataSource pyval pyval pyval
  | ListRetrievers pyval int pyval
  | GetRetriever pyval pyval
  | ListPlugins pyval int pyval
  | GetPlugin pyval pyval
  | GetChatControlsConfiguration pyval int

text \<open>
  What the code reads and does not compute: the remote services (the answer to a request
  may depend on how many calls were made before it), \<open>str\<close> on objects that are not
  strings, the clock, and the configuration values.
\<close>

record env =
  world :: "nat \<Rightarrow> request \<Rightarrow> error + pyval"
  str_other :: "pyval \<Rightarrow> string"
  now_iso :: "nat \<Rightarrow> string"
  aws_region :: pyval
  expected_account :: pyval
  include_empty_apps :: pyval

record user_info =
  username :: pyval
  email :: pyval
  display_name :: pyval

text \<open>
  The mutable fields of the exporter object (\<open>user_cache\<close>, \<open>identity_store_id\<close>), the
  log of the remote calls made so far and the number of clock readings.
\<close>

record state =
  user_cache :: "pyval \<rightharpoonup> user_info"
  identity_store_id :: pyval
  calls :: "request list"
  clock_reads :: nat

datatype 'a outcome = Return 'a | Raise error | Diverge

type_synonym 'a prog = "state \<Rightarrow> 'a outcome \<times> state"

definition pret :: "'a \<Rightarrow> 'a prog" where
  "pret x s = (Return x, s)"

definition pbind :: "'a prog \<Rightarrow> ('a \<Rightarrow> 'b prog) \<Rightarrow> 'b prog" where
  "pbind m f s =
     (case m s of
        (Return x, s') \<Rightarrow> f x s'
      | (Raise e, s') \<Rightarrow> (Raise e, s')
      | (Diverge, s') \<Rightarrow> (Diverge, s'))"

definition lift :: "error + 'a \<Rightarrow> 'a prog" where
  "lift r s = (case r of Inl e \<Rightarrow> (Raise e, s) | Inr x \<Rightarrow> (Return x, s))"

text \<open>\<open>try: body except ClientError: handler\<close>.\<close>

definition except_client :: "'a prog \<Rightarrow> (string \<Rightarrow> 'a prog) \<Rightarrow> 'a prog" where
  "except_client body handler s =
     (case body s of
        (Raise (ClientError c), s') \<Rightarrow> handler c s'
      | r \<Rightarrow> r)"

text \<open>A remote call: the service answers, and the call is logged.\<close>

definition remote :: "env \<Rightarrow> request \<Rightarrow> pyval prog" where
  "remote env rq s =
     (case world env (length (calls s)) rq of
        Inl e \<Rightarrow> (Raise e, s\<lparr>calls := calls s @ [rq]\<rparr>)
      | Inr v \<Rightarrow> (Return v, s\<lparr>calls := calls s @ [rq]\<rparr>))"

text \<open>\<open>str(v)\<close>, which is also how an f-string formats \<open>{v}\<close>.\<close>

definition str_of :: "env \<Rightarrow> pyval \<Rightarrow> string" where
  "str_of env v = (case v of PStr s \<Rightarrow> s | PTime t \<Rightarrow> t | _ \<Rightarrow> str_other env v)"

definition py_str :: "env \<Rightarrow> pyval \<Rightarrow> pyval" where
  "py_str env v = PStr (str_of env v)"

text \<open>\<open>datetime.now().isoformat()\<close>: every reading of the clock is counted.\<close>

definition read_clock :: "env \<Rightarrow> pyval prog" where
  "read_clock env s = (Return (PStr (now_iso env (clock_reads s))), s\<lparr>clock_reads := Suc (clock_reads s)\<rparr>)"

text \<open>A \<open>for\<close> loop that appends one result per element.\<close>

fun for_each :: "('a \<Rightarrow> 'b prog) \<Rightarrow> 'a list \<Rightarrow> 'b list prog" where
  "for_each f [] = pret []"
| "for_each f (x # xs) = pbind (f x) (\<lambda>y. pbind (for_each f xs) (\<lambda>ys. pret (y # ys)))"

section \<open>Identity resolution (get_qbusiness_global_enhanced.py)\<close>

definition get_identity_store_id :: "env \<Rightarrow> pyval \<Rightarrow> pyval prog" where
  "get_identity_store_id env identity_center_arn =
     except_client
       (pbind (remote env ListInstances) (\<lambda>response.
        pbind (lift (py_get response ''Instances'' PNone)) (\<lambda>insts.
          if py_truthy insts then
            pbind (lift (py_index response ''Instances'')) (\<lambda>instances.
            pbind (lift (py_index0 instances)) (\<lambda>i0.
            lift (py_index i0 ''IdentityStoreId'')))
          else pret PNone)))
       (\<lambda>c. pret PNone)"

fun extract_email_loop :: "pyval list \<Rightarrow> error + pyval option" where
  "extract_email_loop [] = Inr None"
| "extract_email_loop (entry # rest) =
     (case py_get entry ''Primary'' (PBool False) of
        Inl e \<Rightarrow> Inl e
      | Inr p \<Rightarrow>
          if py_truthy p then
            (case py_get entry ''Value'' (PStr ''N/A'') of
               Inl e \<Rightarrow> Inl e
             | Inr v \<Rightarrow> Inr (Some v))
          else extract_email_loop rest)"

definition extract_email :: "pyval \<Rightarrow> error + pyval" where
  "extract_email user_response =
     ebind (py_get user_response ''Emails'' (PList [])) (\<lambda>emails.
       if py_truthy emails then
         ebind (py_iter emails) (\<lambda>es.
         ebind (extract_email_loop es) (\<lambda>found.
           case found of
             Some v \<Rightarrow> Inr v
           | None \<Rightarrow> ebind (py_index0 emails) (\<lambda>e0. py_get e0 ''Value'' (PStr ''N/A''))))
       else Inr (PStr ''N/A''))"

definition placeholder_user :: "pyval \<Rightarrow> user_info" where
  "placeholder_user user_id =
     \<lparr>username = user_id, email = PStr ''N/A'', display_name = PStr ''N/A''\<rparr>"

definition cache_user :: "pyval \<Rightarrow> user_info \<Rightarrow> user_info prog" where
  "cache_user user_id info s =
     (Return info, s\<lparr>user_cache := (user_cache s)(dict_key user_id \<mapsto> info)\<rparr>)"

definition get_user_details :: "env \<Rightarrow> pyval \<Rightarrow> pyval \<Rightarrow> user_info prog" where
  "get_user_details env store_id user_id s =
     (if \<not> hashable user_id then (Raise TypeError, s)
      else case user_cache s (dict_key user_id) of
        Some info \<Rightarrow> (Return info, s)
      | None \<Rightarrow>
          if \<not> py_truthy store_id \<or> user_id = PStr ''N/A'' then
            cache_user user_id (placeholder_user user_id) s
          else
            except_client
              (pbind (remote env (DescribeUser store_id user_id)) (\<lambda>response.
               pbind (lift (py_get response ''UserName'' (PStr ''N/A''))) (\<lambda>un.
               pbind (lift (extract_email response)) (\<lambda>em.
               pbind (lift (py_get response ''DisplayName'' (PStr ''N/A''))) (\<lambda>dn.
               cache_user user_id \<lparr>username = un, email = em, display_name = dn\<rparr>)))))
              (\<lambda>c. cache_user user_id (placeholder_user user_id))
              s)"

section \<open>Paginated collection\<close>

text \<open>
  Every fetch function has the same shape: a \<open>while True\<close> loop over the pages of a list
  operation, which stops when a response carries no \<open>nextToken\<close>, and inside it a
  \<open>for\<close> loop over the page's items. The service decides how many pages there are, so
  the loop takes fuel: \<open>Diverge\<close> is the outcome when the fuel runs out.
\<close>

text \<open>
  The inner loop of the hydrating collectors:
  \<open>try: detail = get(id=item[idk]); acc.append(detail)
    except ClientError: acc.append(item)\<close>.
\<close>

definition hydrate_item :: "env \<Rightarrow> string \<Rightarrow> (pyval \<Rightarrow> request) \<Rightarrow> pyval \<Rightarrow> pyval prog" where
  "hydrate_item env idk mk item =
     except_client
       (pbind (lift (py_index item idk)) (\<lambda>i. remote env (mk i)))
       (\<lambda>c. pret item)"

definition hydrate :: "env \<Rightarrow> string \<Rightarrow> (pyval \<Rightarrow> request) \<Rightarrow> pyval list \<Rightarrow> pyval list prog" where
  "hydrate env idk mk items = for_each (hydrate_item env idk mk) items"

fun page_loop ::
  "nat \<Rightarrow> env \<Rightarrow> (pyval \<Rightarrow> request) \<Rightarrow> string \<Rightarrow> (pyval list \<Rightarrow> pyval list prog) \<Rightarrow>
   pyval \<Rightarrow> pyval list \<Rightarrow> pyval list prog" where
  "page_loop 0 env mkl key per_page next_token acc = (\<lambda>s. (Diverge, s))"
| "page_loop (Suc fuel) env mkl key per_page next_token acc =
     pbind (remote env (mkl (if py_truthy next_token then next_token else PNone))) (\<lambda>response.
     pbind (lift (py_get response key (PList []))) (\<lambda>items.
     pbind (lift (py_iter items)) (\<lambda>its.
     pbind (per_page its) (\<lambda>new.
     pbind (lift (py_get response ''nextToken'' PNone)) (\<lambda>token.
       if py_truthy token then page_loop fuel env mkl key per_page token (acc @ new)
       else pret (acc @ new))))))"

text \<open>The whole function: \<open>try: ... return acc  except ClientError: return []\<close>.\<close>

definition collector ::
  "nat \<Rightarrow> env \<Rightarrow> (pyval \<Rightarrow> request) \<Rightarrow> string \<Rightarrow> (pyval list \<Rightarrow> pyval list prog) \<Rightarrow>
   pyval list prog" where
  "collector fuel env mkl key per_page =
     except_client (page_loop fuel env mkl key per_page PNone []) (\<lambda>c. pret [])"

subsection \<open>get_qbusiness_global_enhanced.py\<close>

definition list_applications :: "nat \<Rightarrow> env \<Rightarrow> pyval list prog" where
  "list_applications fuel env =
     collector fuel env (\<lambda>t. ListApplications 50 t) ''applications''
       (hydrate env ''applicationId'' (\<lambda>i. GetApplication i))"

text \<open>The enhanced exporter appends the list items as they are.\<close>

definition get_qapps :: "nat \<Rightarrow> env \<Rightarrow> pyval \<Rightarrow> pyval list prog" where
  "get_qapps fuel env application_id =
     collector fuel env (\<lambda>t. ListLibraryItems application_id 100 t) ''libraryItems'' pret"

definition get_data_sources :: "nat \<Rightarrow> env \<Rightarrow> pyval \<Rightarrow> pyval \<Rightarrow> pyval list prog" where
  "get_data_sources fuel env application_id index_id =
     collector fuel env (\<lambda>t. ListDataSources application_id index_id 10 t) ''dataSources''
       (hydrate env ''dataSourceId'' (\<lambda>i. GetDataSource application_id index_id i))"

text \<open>\<open>get_retrievers\<close> has the same text in get_qbusiness_global.py.\<close>

definition get_retrievers :: "nat \<Rightarrow> env \<Rightarrow> pyval \<Rightarrow> pyval list prog" where
  "get_retrievers fuel env application_id =
     collector fuel env (\<lambda>t. ListRetrievers application_id 50 t) ''retrievers''
       (hydrate env ''retrieverId'' (\<lambda>i. GetRetriever application_id i))"

definition get_plugins :: "nat \<Rightarrow> env \<Rightarrow> pyval \<Rightarrow> pyval list prog" where
  "get_plugins fuel env application_id =
     collector fuel env (\<lambda>t. ListPlugins application_id 50 t) ''plugins''
       (hydrate env ''pluginId'' (\<lambda>i. GetPlugin application_id i))"

definition get_chat_controls :: "env \<Rightarrow> pyval \<Rightarrow> pyval prog" where
  "get_chat_controls env application_id =
     except_client (remote env (GetChatControlsConfiguration application_id 50))
       (\<lambda>c. pret (PDict []))"

subsection \<open>get_qbusiness_global.py and get_qapps_info.py\<close>

definition get_qapps_global :: "nat \<Rightarrow> env \<Rightarrow> pyval \<Rightarrow> pyval list prog" where
  "get_qapps_global fuel env application_id =
     collector fuel env (\<lambda>t. ListLibraryItems application_id 100 t) ''libraryItems''
       (hydrate env ''libraryItemId'' (\<lambda>i. GetLibraryItem application_id i))"

text \<open>In get_qapps_info.py the page sizes come from the configuration.\<close>

definition list_qbusiness_applications :: "nat \<Rightarrow> env \<Rightarrow> int \<Rightarrow> pyval list prog" where
  "list_qbusiness_applications fuel env max_results =
     collector fuel env (\<lambda>t. ListApplications max_results t) ''applications''
       (hydrate env ''applicationId'' (\<lambda>i. GetApplication i))"

definition get_qapps_for_application :: "nat \<Rightarrow> env \<Rightarrow> int \<Rightarrow> pyval \<Rightarrow> pyval list prog" where
  "get_qapps_for_application fuel env max_limit application_id =
     collector fuel env (\<lambda>t. ListLibraryItems application_id max_limit t) ''libraryItems''
       (hydrate env ''libraryItemId'' (\<lambda>i. GetLibraryItem application_id i))"

section \<open>Row flattening\<close>

text \<open>A dictionary display \<open>{k1: e1, k2: e2, ...}\<close>: the values are computed in order.\<close>

fun collect :: "(string \<times> (error + pyval)) list \<Rightarrow> error + pydict" where
  "collect [] = Inr []"
| "collect ((k, c) # rest) =
     (case c of
        Inl e \<Rightarrow> Inl e
      | Inr v \<Rightarrow> (case collect rest of Inl e \<Rightarrow> Inl e | Inr row \<Rightarrow> Inr ((k, v) # row)))"

text \<open>\<open>x.get(k, dflt) if x else other\<close>.\<close>

definition get_if :: "pyval \<Rightarrow> string \<Rightarrow> pyval \<Rightarrow> pyval \<Rightarrow> error + pyval" where
  "get_if x k dflt other = (if py_truthy x then py_get x k dflt else Inr other)"

text \<open>\<open>sep.join([x.get(k, dflt) for x in xs])\<close>.\<close>

definition join_field :: "string \<Rightarrow> string \<Rightarrow> pyval \<Rightarrow> pyval list \<Rightarrow> error + pyval" where
  "join_field sep k dflt xs = ebind (comprehension (\<lambda>x. py_get x k dflt) xs) (py_join sep)"

definition NA :: pyval where
  "NA = PStr ''N/A''"

subsection \<open>get_qbusiness_global_enhanced.py: _create_global_row\<close>

text \<open>
  The dictionary display of \<open>_create_global_row\<close>, up to the metadata fields. Its
  arguments after \<open>chat_controls\<close> are the local variables computed before it.
\<close>

definition row_fields ::
  "env \<Rightarrow> pyval \<Rightarrow> pyval \<Rightarrow> pyval list \<Rightarrow> pyval list \<Rightarrow> pyval list \<Rightarrow> pyval \<Rightarrow> pyval \<Rightarrow>
   pyval \<Rightarrow> pyval \<Rightarrow> pyval \<Rightarrow> pyval \<Rightarrow> pyval \<Rightarrow>
   pyval \<Rightarrow> pyval \<Rightarrow> pyval \<Rightarrow> pyval \<Rightarrow> pyval \<Rightarrow>
   pyval \<Rightarrow> pyval \<Rightarrow> user_info \<Rightarrow> user_info \<Rightarrow> pyval \<Rightarrow>
   (string \<times> (error + pyval)) list" where
  "row_fields env app qapp data_sources retrievers plugins index_id chat_controls
     attachments auto_sub personalization qapps_config quicksight_config
     blocked_phrases_config creator_mode hallucination_reduction orchestration topic_configs
     creator_id updater_id creator_info updater_info store_id =
   [ (''qapp_name'',
        if py_truthy qapp then
          ebind (py_get qapp ''libraryItemId'' (PStr ''Unknown''))
            (\<lambda>v. Inr (PStr (''Q App '' @ str_of env v)))
        else Inr (PStr ''No Q Apps'')),
     (''qapp_id'', get_if qapp ''appId'' NA NA),
     (''qapp_library_item_id'', get_if qapp ''libraryItemId'' NA NA),
     (''qapp_version'', get_if qapp ''appVersion'' NA NA),
     (''qapp_status'', get_if qapp ''status'' NA NA),
     (''qapp_user_count'', get_if qapp ''userCount'' (PInt 0) (PInt 0)),
     (''qapp_creator_user_id'', Inr creator_id),
     (''qapp_creator_username'', Inr (username creator_info)),
     (''qapp_creator_email'', Inr (email creator_info)),
     (''qapp_creator_display_name'', Inr (display_name creator_info)),
     (''qapp_created_at'',
        if py_truthy qapp then ebind (py_get qapp ''createdAt'' NA) (\<lambda>v. Inr (py_str env v))
        else Inr NA),
     (''qapp_updater_user_id'', Inr updater_id),
     (''qapp_updater_username'', Inr (username updater_info)),
     (''qapp_updater_email'', Inr (email updater_info)),
     (''qapp_updated_at'',
        if py_truthy qapp then ebind (py_get qapp ''updatedAt'' NA) (\<lambda>v. Inr (py_str env v))
        else Inr NA),
     (''qapp_rating_count'', get_if qapp ''ratingCount'' (PInt 0) (PInt 0)),
     (''qapp_is_verified'', get_if qapp ''isVerified'' (PBool False) (PBool False)),
     (''qapp_is_rated_by_user'', get_if qapp ''isRatedByUser'' (PBool False) (PBool False)),
     (''qapp_description'', get_if qapp ''description'' NA NA),
     (''qapp_categories'',
        if py_truthy qapp then
          ebind (py_get qapp ''categories'' (PList [])) (\<lambda>cats.
          ebind (py_iter cats) (join_field '', '' ''title'' (PStr [])))
        else Inr NA),
     (''app_name'', py_get app ''displayName'' NA),
     (''app_id'', py_get app ''applicationId'' NA),
     (''app_arn'', py_get app ''applicationArn'' NA),
     (''app_description'', py_get app ''description'' NA),
     (''app_status'', py_get app ''status'' NA),
     (''app_created_at'', ebind (py_get app ''createdAt'' NA) (\<lambda>v. Inr (py_str env v))),
     (''app_updated_at'', ebind (py_get app ''updatedAt'' NA) (\<lambda>v. Inr (py_str env v))),
     (''identity_type'', py_get app ''identityType'' NA),
     (''identity_center_arn'', py_get app ''identityCenterApplicationArn'' NA),
     (''identity_store_id'', Inr (py_or store_id NA)),
     (''iam_identity_provider_arn'', py_get app ''iamIdentityProviderArn'' NA),
     (''client_ids_for_oidc'',
        ebind (py_get app ''clientIdsForOIDC'' (PList [])) (\<lambda>ids.
        ebind (py_iter ids) (py_join '', ''))),
     (''role_arn'', py_get app ''roleArn'' NA),
     (''encryption_kms_key'',
        ebind (py_get app ''encryptionConfiguration'' (PDict []))
          (\<lambda>enc. py_get enc ''kmsKeyId'' (PStr ''AWS Managed''))),
     (''attachments_mode'', py_get attachments ''attachmentsControlMode'' NA),
     (''auto_subscribe'', py_get auto_sub ''autoSubscribe'' NA),
     (''auto_subscribe_default'', py_get auto_sub ''defaultSubscriptionType'' NA),
     (''personalization_mode'', py_get personalization ''personalizationControlMode'' NA),
     (''qapps_mode'', py_get qapps_config ''qAppsControlMode'' NA),
     (''quicksight_namespace'', py_get quicksight_config ''clientNamespace'' NA),
     (''blocked_phrases_count'',
        ebind (py_get blocked_phrases_config ''blockedPhrases'' (PList [])) py_len),
     (''blocked_phrases'',
        ebind (py_get blocked_phrases_config ''blockedPhrases'' (PList [])) (\<lambda>ps.
        ebind (py_iter ps) (py_join ''; ''))),
     (''blocked_phrases_system_message'',
        py_get blocked_phrases_config ''systemMessageOverride'' NA),
     (''creator_mode_control'', py_get creator_mode ''creatorModeControl'' NA),
     (''hallucination_reduction_control'',
        py_get hallucination_reduction ''hallucinationReductionControl'' NA),
     (''orchestration_control'', py_get orchestration ''control'' NA),
     (''response_scope'', get_if chat_controls ''responseScope'' NA NA),
     (''topic_count'', py_len topic_configs),
     (''topic_names'', ebind (py_iter topic_configs) (join_field '', '' ''name'' NA)),
     (''topic_descriptions'',
        ebind (py_iter topic_configs) (\<lambda>ts.
        ebind (comprehension
                 (\<lambda>t. ebind (py_get t ''name'' NA) (\<lambda>n.
                      ebind (py_get t ''description'' NA) (\<lambda>d.
                        Inr (PStr (str_of env n @ '': '' @ str_of env d)))))
                 ts)
          (py_join '' | ''))),
     (''error_code'',
        ebind (py_get app ''error'' (PDict [])) (\<lambda>err. py_get err ''errorCode'' NA)),
     (''error_message'',
        ebind (py_get app ''error'' (PDict [])) (\<lambda>err. py_get err ''errorMessage'' NA)),
     (''index_id'', Inr (py_or index_id NA)),
     (''data_source_count'', Inr (PInt (int (length data_sources)))),
     (''data_source_ids'', join_field '', '' ''dataSourceId'' NA data_sources),
     (''data_source_types'', join_field '', '' ''type'' NA data_sources),
     (''data_source_names'', join_field '', '' ''displayName'' NA data_sources),
     (''data_source_statuses'', join_field '', '' ''status'' NA data_sources),
     (''retriever_count'', Inr (PInt (int (length retrievers)))),
     (''retriever_ids'', join_field '', '' ''retrieverId'' NA retrievers),
     (''retriever_types'', join_field '', '' ''type'' NA retrievers),
     (''retriever_statuses'', join_field '', '' ''status'' NA retrievers),
     (''plugin_count'', Inr (PInt (int (length plugins)))),
     (''plugin_ids'', join_field '', '' ''pluginId'' NA plugins),
     (''plugin_types'', join_field '', '' ''type'' NA plugins),
     (''plugin_statuses'', join_field '', '' ''status'' NA plugins) ]"

text \<open>The three metadata fields that end both row builders' dictionaries.\<close>

definition metadata_fields :: "env \<Rightarrow> string \<Rightarrow> pyval \<Rightarrow> pydict" where
  "metadata_fields env stamp_key now =
     [ (stamp_key, now),
       (''aws_region'', aws_region env),
       (''aws_account'', py_or (expected_account env) NA) ]"

definition create_global_row ::
  "env \<Rightarrow> pyval \<Rightarrow> pyval \<Rightarrow> pyval list \<Rightarrow> pyval list \<Rightarrow> pyval list \<Rightarrow> pyval \<Rightarrow> pyval \<Rightarrow>
   pydict prog" where
  "create_global_row env app qapp data_sources retrievers plugins index_id chat_controls =
     pbind (lift (py_get app ''attachmentsConfiguration'' (PDict []))) (\<lambda>attachments.
     pbind (lift (py_get app ''autoSubscriptionConfiguration'' (PDict []))) (\<lambda>auto_sub.
     pbind (lift (py_get app ''personalizationConfiguration'' (PDict []))) (\<lambda>personalization.
     pbind (lift (py_get app ''qAppsConfiguration'' (PDict []))) (\<lambda>qapps_config.
     pbind (lift (py_get app ''quickSightConfiguration'' (PDict []))) (\<lambda>quicksight_config.
     pbind (lift (get_if chat_controls ''blockedPhrases'' (PDict []) (PDict [])))
       (\<lambda>blocked_phrases_config.
     pbind (lift (get_if chat_controls ''creatorModeConfiguration'' (PDict []) (PDict [])))
       (\<lambda>creator_mode.
     pbind (lift (get_if chat_controls ''hallucinationReductionConfiguration'' (PDict []) (PDict [])))
       (\<lambda>hallucination_reduction.
     pbind (lift (get_if chat_controls ''orchestrationConfiguration'' (PDict []) (PDict [])))
       (\<lambda>orchestration.
     pbind (lift (get_if chat_controls ''topicConfigurations'' (PList []) (PList [])))
       (\<lambda>topic_configs.
     pbind (lift (get_if qapp ''createdBy'' NA NA)) (\<lambda>creator_id.
     pbind (lift (get_if qapp ''updatedBy'' NA NA)) (\<lambda>updater_id.
     pbind (\<lambda>s. get_user_details env (identity_store_id s) creator_id s) (\<lambda>creator_info.
     pbind (\<lambda>s. get_user_details env (identity_store_id s) updater_id s) (\<lambda>updater_info.
     pbind (\<lambda>s. (Return (identity_store_id s), s)) (\<lambda>store_id.
     pbind (lift (collect
              (row_fields env app qapp data_sources retrievers plugins index_id chat_controls
                 attachments auto_sub personalization qapps_config quicksight_config
                 blocked_phrases_config creator_mode hallucination_reduction orchestration
                 topic_configs creator_id updater_id creator_info updater_info store_id)))
       (\<lambda>row.
     pbind (read_clock env) (\<lambda>now.
     pret (row @ metadata_fields env ''export_timestamp'' now))))))))))))))))))"

subsection \<open>get_qapps_info.py: _create_data_row\<close>

text \<open>\<open>d[k] = v\<close> and \<open>d.update(other)\<close>: a key that is there keeps its place.\<close>

fun dict_set :: "pydict \<Rightarrow> string \<Rightarrow> pyval \<Rightarrow> pydict" where
  "dict_set [] k v = [(k, v)]"
| "dict_set ((k', v') # d) k v = (if k' = k then (k, v) # d else (k', v') # dict_set d k v)"

definition dict_update :: "pydict \<Rightarrow> pydict \<Rightarrow> pydict" where
  "dict_update d other = foldl (\<lambda>acc kv. dict_set acc (fst kv) (snd kv)) d other"

definition data_row_app_fields :: "env \<Rightarrow> pyval \<Rightarrow> (string \<times> (error + pyval)) list" where
  "data_row_app_fields env app =
   [ (''qbusiness_app_name'',
        ebind (py_get app ''applicationId'' NA) (\<lambda>dflt. py_get app ''displayName'' dflt)),
     (''qbusiness_app_id'', py_get app ''applicationId'' NA),
     (''qbusiness_status'', py_get app ''status'' NA),
     (''qbusiness_identity_type'', py_get app ''identityType'' NA),
     (''qbusiness_created_at'', ebind (py_get app ''createdAt'' NA) (\<lambda>v. Inr (py_str env v))),
     (''qbusiness_updated_at'', ebind (py_get app ''updatedAt'' NA) (\<lambda>v. Inr (py_str env v))),
     (''qbusiness_encryption'',
        ebind (py_get app ''encryptionConfiguration'' (PDict []))
          (\<lambda>enc. py_get enc ''kmsKeyId'' (PStr ''AWS Managed''))) ]"

definition data_row_qapp_fields :: "env \<Rightarrow> pyval \<Rightarrow> (string \<times> (error + pyval)) list" where
  "data_row_qapp_fields env qapp =
   [ (''qapp_name'',
        ebind (py_get qapp ''libraryItemId'' NA) (\<lambda>dflt. py_get qapp ''title'' dflt)),
     (''qapp_library_item_id'', py_get qapp ''libraryItemId'' NA),
     (''qapp_id'', py_get qapp ''appId'' NA),
     (''qapp_version'', py_get qapp ''appVersion'' NA),
     (''qapp_status'', py_get qapp ''status'' NA),
     (''user_count'', py_get qapp ''userCount'' (PInt 0)),
     (''owner_created_by'', py_get qapp ''createdBy'' NA),
     (''created_at'', ebind (py_get qapp ''createdAt'' NA) (\<lambda>v. Inr (py_str env v))),
     (''updated_by'', py_get qapp ''updatedBy'' NA),
     (''updated_at'', ebind (py_get qapp ''updatedAt'' NA) (\<lambda>v. Inr (py_str env v))),
     (''rating_count'', py_get qapp ''ratingCount'' (PInt 0)),
     (''is_verified'', py_get qapp ''isVerified'' (PBool False)),
     (''is_rated_by_user'', py_get qapp ''isRatedByUser'' (PBool False)),
     (''description'', py_get qapp ''description'' NA),
     (''categories'',
        ebind (py_get qapp ''categories'' (PList [])) (\<lambda>cats.
        ebind (py_iter cats) (join_field '', '' ''title'' (PStr [])))) ]"

definition data_row_no_qapp :: pydict where
  "data_row_no_qapp =
   [ (''qapp_name'', PStr ''No Q Apps''),
     (''qapp_library_item_id'', NA),
     (''qapp_id'', NA),
     (''qapp_version'', NA),
     (''qapp_status'', NA),
     (''user_count'', PInt 0),
     (''owner_created_by'', NA),
     (''created_at'', NA),
     (''updated_by'', NA),
     (''updated_at'', NA),
     (''rating_count'', PInt 0),
     (''is_verified'', PBool False),
     (''is_rated_by_user'', PBool False),
     (''description'', NA),
     (''categories'', NA) ]"

definition create_data_row :: "env \<Rightarrow> pyval \<Rightarrow> pyval \<Rightarrow> pydict prog" where
  "create_data_row env app qapp =
     pbind (lift (collect (data_row_app_fields env app))) (\<lambda>row.
     pbind (if py_truthy qapp then
              pbind (lift (collect (data_row_qapp_fields env qapp))) (\<lambda>other.
              pret (dict_update row other))
            else pret (dict_update row data_row_no_qapp)) (\<lambda>row.
     pbind (read_clock env) (\<lambda>now.
     pret (dict_update row (metadata_fields env ''retrieval_timestamp'' now)))))"

section \<open>Aggregation\<close>

subsection \<open>get_qbusiness_global_enhanced.py: export_all_data\<close>

text \<open>The end of the loop body: \<open>if qapps: ... elif include_empty: ...\<close>.\<close>

definition create_rows ::
  "env \<Rightarrow> pyval \<Rightarrow> pyval list \<Rightarrow> pyval list \<Rightarrow> pyval list \<Rightarrow> pyval list \<Rightarrow> pyval \<Rightarrow> pyval \<Rightarrow>
   pydict list prog" where
  "create_rows env app qapps data_sources retrievers plugins index_id chat_controls =
     (if qapps \<noteq> [] then
        for_each
          (\<lambda>qapp. create_global_row env app qapp data_sources retrievers plugins index_id
                    chat_controls)
          qapps
      else if py_truthy (include_empty_apps env) then
        pbind (create_global_row env app PNone data_sources retrievers plugins index_id
                 chat_controls)
          (\<lambda>row. pret [row])
      else pret [])"

text \<open>\<open>if not self.identity_store_id: ...\<close>, the discovery of the identity store.\<close>

definition discover_identity_store :: "env \<Rightarrow> pyval \<Rightarrow> unit prog" where
  "discover_identity_store env app s =
     (if \<not> py_truthy (identity_store_id s) then
        pbind (lift (py_get app ''identityType'' PNone)) (\<lambda>identity_type.
          if identity_type = PStr ''AWS_IAM_IDC'' then
            pbind (lift (py_get app ''identityCenterApplicationArn'' PNone))
              (\<lambda>identity_center_arn.
                if py_truthy identity_center_arn then
                  pbind (get_identity_store_id env identity_center_arn)
                    (\<lambda>v s'. (Return (), s'\<lparr>identity_store_id := v\<rparr>))
                else pret ())
          else pret ()) s
      else (Return (), s))"

definition get_index_id :: "env \<Rightarrow> pyval \<Rightarrow> pyval prog" where
  "get_index_id env app_id =
     except_client
       (pbind (remote env (ListIndices app_id 10)) (\<lambda>indices.
        pbind (lift (py_get indices ''indices'' PNone)) (\<lambda>found.
          if py_truthy found then
            pbind (lift (py_index indices ''indices'')) (\<lambda>ixs.
            pbind (lift (py_index0 ixs)) (\<lambda>i0.
            lift (py_index i0 ''indexId'')))
          else pret PNone)))
       (\<lambda>c. pret PNone)"

text \<open>The body of the loop over the applications.\<close>

definition process_app :: "nat \<Rightarrow> env \<Rightarrow> pyval \<Rightarrow> pydict list prog" where
  "process_app fuel env app =
     pbind (lift (py_get app ''applicationId'' NA)) (\<lambda>app_id.
     pbind (lift (py_get app ''displayName'' app_id)) (\<lambda>app_name.
     pbind (discover_identity_store env app) (\<lambda>u.
     pbind (get_index_id env app_id) (\<lambda>index_id.
     pbind (get_qapps fuel env app_id) (\<lambda>qapps.
     pbind (if py_truthy index_id then get_data_sources fuel env app_id index_id else pret [])
       (\<lambda>data_sources.
     pbind (get_retrievers fuel env app_id) (\<lambda>retrievers.
     pbind (get_plugins fuel env app_id) (\<lambda>plugins.
     pbind (get_chat_controls env app_id) (\<lambda>chat_controls.
     create_rows env app qapps data_sources retrievers plugins index_id chat_controls)))))))))"

definition export_all_data :: "nat \<Rightarrow> env \<Rightarrow> pydict list prog" where
  "export_all_data fuel env =
     pbind (list_applications fuel env) (\<lambda>applications.
     pbind (for_each (process_app fuel env) applications) (\<lambda>rows.
     pret (concat rows)))"

subsection \<open>get_qapps_info.py: retrieve_all_data\<close>

definition retrieve_app :: "nat \<Rightarrow> env \<Rightarrow> int \<Rightarrow> pyval \<Rightarrow> pydict list prog" where
  "retrieve_app fuel env max_limit app =
     pbind (lift (py_get app ''applicationId'' NA)) (\<lambda>app_id.
     pbind (lift (ebind (py_get app ''applicationId'' NA) (\<lambda>dflt. py_get app ''displayName'' dflt)))
       (\<lambda>app_name.
     pbind (get_qapps_for_application fuel env max_limit app_id) (\<lambda>qapps.
       if qapps \<noteq> [] then for_each (\<lambda>qapp. create_data_row env app qapp) qapps
       else if py_truthy (include_empty_apps env) then
         pbind (create_data_row env app PNone) (\<lambda>row. pret [row])
       else pret [])))"

definition retrieve_all_data :: "nat \<Rightarrow> env \<Rightarrow> int \<Rightarrow> int \<Rightarrow> pydict list prog" where
  "retrieve_all_data fuel env max_results max_limit =
     pbind (list_qbusiness_applications fuel env max_results) (\<lambda>applications.
     pbind (for_each (retrieve_app fuel env max_limit) applications) (\<lambda>rows.
     pret (concat rows)))"

section \<open>CSV export\<close>

text \<open>
  What \<open>csv.DictWriter\<close> does with a row: with \<open>extrasaction='raise'\<close> (the default) a key
  that is not a field name is a \<open>ValueError\<close>; a missing key is written as the empty
  string.
\<close>

definition dict_to_list :: "bool \<Rightarrow> string list \<Rightarrow> pydict \<Rightarrow> error + pyval list" where
  "dict_to_list ignore_extras names rowdict =
     (if \<not> ignore_extras \<and> list_ex (\<lambda>k. k \<notin> set names) (map fst rowdict) then Inl ValueError
      else Inr (map (\<lambda>k. dict_get rowdict k (PStr [])) names))"

text \<open>
  The file that was written: the header line if there is one, the data lines, and the
  exception that ended the writing early, if any.
\<close>

record csv_file =
  csv_header :: "string list option"
  csv_lines :: "pyval list list"
  csv_error :: "error option"

fun writerows :: "bool \<Rightarrow> string list \<Rightarrow> pydict list \<Rightarrow> pyval list list \<times> error option" where
  "writerows ignore_extras names [] = ([], None)"
| "writerows ignore_extras names (r # rs) =
     (case dict_to_list ignore_extras names r of
        Inl e \<Rightarrow> ([], Some e)
      | Inr line \<Rightarrow>
          (case writerows ignore_extras names rs of (ls, err) \<Rightarrow> (line # ls, err)))"

definition write_csv :: "bool \<Rightarrow> bool \<Rightarrow> string list \<Rightarrow> pydict list \<Rightarrow> csv_file" where
  "write_csv ignore_extras include_headers names data =
     (case writerows ignore_extras names data of
        (ls, err) \<Rightarrow>
          \<lparr>csv_header = (if include_headers then Some names else None),
           csv_lines = ls, csv_error = err\<rparr>)"

text \<open>get_qbusiness_global_enhanced.py. \<open>None\<close>: no file is written.\<close>

definition export_to_csv :: "pydict list \<Rightarrow> csv_file option" where
  "export_to_csv data =
     (case data of
        [] \<Rightarrow> None
      | first # rest \<Rightarrow> Some (write_csv False True (map fst first) data))"

text \<open>get_qapps_info.py.\<close>

definition all_fieldnames :: "string list" where
  "all_fieldnames =
   [ ''qapp_name'', ''user_count'', ''owner_created_by'',
     ''qbusiness_app_name'', ''qbusiness_app_id'', ''qbusiness_status'',
     ''qbusiness_identity_type'', ''qbusiness_created_at'', ''qbusiness_updated_at'',
     ''qbusiness_encryption'', ''qapp_library_item_id'', ''qapp_id'',
     ''qapp_version'', ''qapp_status'', ''created_at'', ''updated_by'', ''updated_at'',
     ''rating_count'', ''is_verified'', ''is_rated_by_user'',
     ''description'', ''categories'',
     ''retrieval_timestamp'', ''aws_region'', ''aws_account'' ]"

definition csv_fieldnames :: "pydict \<Rightarrow> string list" where
  "csv_fieldnames column_config =
     (if column_config \<noteq> [] then
        filter (\<lambda>col. py_truthy (dict_get column_config col (PBool True))) all_fieldnames
      else all_fieldnames)"

definition export_to_csv_info :: "pydict \<Rightarrow> bool \<Rightarrow> pydict list \<Rightarrow> csv_file option" where
  "export_to_csv_info column_config include_headers data =
     (if data = [] then None
      else Some (write_csv True include_headers (csv_fieldnames column_config) data))"

section \<open>Notions used in the statements\<close>

text \<open>The exporter as \<open>__init__\<close> leaves it: an empty cache, no identity store, no call made.\<close>

definition init_state :: state where
  "init_state = \<lparr>user_cache = Map.empty, identity_store_id = PNone, calls = [], clock_reads = 0\<rparr>"

text \<open>The number of remote describe-user lookups made so far.\<close>

definition describe_calls :: "state \<Rightarrow> nat" where
  "describe_calls s =
     length (filter (\<lambda>rq. case rq of DescribeUser d u \<Rightarrow> True | _ \<Rightarrow> False) (calls s))"

text \<open>
  The email rule in the specification's words, on a list of email entries: the
  primary-flagged entry's address if there is one, else the first entry's address,
  else "N/A".
\<close>

definition spec_email :: "pydict list \<Rightarrow> pyval" where
  "spec_email entries =
     (case find (\<lambda>e. py_truthy (dict_get e ''Primary'' (PBool False))) entries of
        Some e \<Rightarrow> dict_get e ''Value'' (PStr ''N/A'')
      | None \<Rightarrow>
          (case entries of
             [] \<Rightarrow> PStr ''N/A''
           | e # rest \<Rightarrow> dict_get e ''Value'' (PStr ''N/A'')))"

subsection \<open>Example surroundings\<close>

text \<open>A service that answers every request the same way, whenever it is asked.\<close>

definition example_env :: "(request \<Rightarrow> error + pyval) \<Rightarrow> pyval \<Rightarrow> env" where
  "example_env service include_empty =
     \<lparr>world = (\<lambda>n. service),
      str_other = (\<lambda>v. ''<object>''),
      now_iso = (\<lambda>n. ''2026-01-12T09:00:00''),
      aws_region = PStr ''us-east-1'',
      expected_account = PNone,
      include_empty_apps = include_empty\<rparr>"

definition denying_service :: "request \<Rightarrow> error + pyval" where
  "denying_service rq = Inl (ClientError ''AccessDeniedException'')"

definition alice_response :: pyval where
  "alice_response =
     PDict [ (''UserName'', PStr ''alice''),
             (''DisplayName'', PStr ''Alice A.''),
             (''Emails'',
                PList [ PDict [(''Value'', PStr ''a@old.example'')],
                        PDict [(''Value'', PStr ''alice@example.org''), (''Primary'', PBool True)] ]) ]"

definition directory_service :: "request \<Rightarrow> error + pyval" where
  "directory_service rq =
     (case rq of
        DescribeUser d u \<Rightarrow> Inr alice_response
      | _ \<Rightarrow> Inl (ClientError ''AccessDeniedException''))"

subsection \<open>What a hydrated page is\<close>





text \<open>Five listed items; the detail call fails for the third.\<close>

definition library_item :: "string \<Rightarrow> pyval" where
  "library_item i = PDict [(''libraryItemId'', PStr i), (''status'', PStr ''PUBLISHED'')]"

definition five_items :: "pyval list" where
  "five_items =
     [ library_item ''item-1'', library_item ''item-2'', library_item ''item-3'',
       library_item ''item-4'', library_item ''item-5'' ]"

definition item_detail :: "pyval \<Rightarrow> pyval" where
  "item_detail i = PDict [(''libraryItemId'', i), (''title'', PStr ''An app''), (''userCount'', PInt 7)]"

definition library_service :: "request \<Rightarrow> error + pyval" where
  "library_service rq =
     (case rq of
        ListLibraryItems a limit token \<Rightarrow> Inr (PDict [(''libraryItems'', PList five_items)])
      | GetLibraryItem a i \<Rightarrow>
          if i = PStr ''item-3'' then Inl (ClientError ''ResourceNotFoundException'')
          else Inr (item_detail i)
      | _ \<Rightarrow> Inl (ClientError ''AccessDeniedException''))"

subsection \<open>Rows of a parent without app-children\<close>




definition app_A :: pyval where
  "app_A = PDict [(''applicationId'', PStr ''app-A''), (''displayName'', PStr ''Parent A'')]"


subsection \<open>Discovery of the identity store\<close>

text \<open>The number of \<open>list_instances\<close> calls made so far.\<close>

definition list_instances_calls :: "state \<Rightarrow> nat" where
  "list_instances_calls s = count_list (calls s) ListInstances"

text \<open>
  Two applications that use IAM Identity Center, in an account where the caller may list
  and read the applications and nothing else.
\<close>

definition idc_application :: "pyval \<Rightarrow> pyval" where
  "idc_application i =
     PDict [ (''applicationId'', i), (''displayName'', PStr ''Assistant''),
             (''identityType'', PStr ''AWS_IAM_IDC''),
             (''identityCenterApplicationArn'',
                PStr ''arn:aws:sso::111122223333:application/ssoins-1/apl-1'') ]"

definition idc_service :: "request \<Rightarrow> error + pyval" where
  "idc_service rq =
     (case rq of
        ListApplications m token \<Rightarrow>
          Inr (PDict [(''applications'',
                 PList [ PDict [(''applicationId'', PStr ''app-A'')],
                         PDict [(''applicationId'', PStr ''app-B'')] ])])
      | GetApplication i \<Rightarrow> Inr (idc_application i)
      | _ \<Rightarrow> Inl (ClientError ''AccessDeniedException''))"

subsection \<open>A parent that has no app-children\<close>


subsection \<open>Shapes of an aggregate tuple\<close>

text \<open>
  \<open>_create_global_row\<close> and \<open>_create_data_row\<close> guard against absent keys with
  \<open>get(k, default)\<close> and check no types. The predicates below say that the fields the
  row builders look into are absent or have the shape the service gives them: a nested
  configuration is a dictionary, a list that is joined is a list of strings, a list that is
  summarised is a list of dictionaries whose joined fields are strings, a principal id is
  hashable. An app-child or a chat configuration that is falsy is not looked into.
\<close>

definition is_ok :: "error + 'a \<Rightarrow> bool" where
  "is_ok r = (case r of Inl e \<Rightarrow> False | Inr x \<Rightarrow> True)"

fun is_dict :: "pyval \<Rightarrow> bool" where
  "is_dict (PDict d) = True"
| "is_dict _ = False"

fun is_str :: "pyval \<Rightarrow> bool" where
  "is_str (PStr s) = True"
| "is_str _ = False"

definition absent_or :: "(pyval \<Rightarrow> bool) \<Rightarrow> pydict \<Rightarrow> string \<Rightarrow> bool" where
  "absent_or P d k = (case map_of d k of None \<Rightarrow> True | Some v \<Rightarrow> P v)"

definition str_list :: "pyval \<Rightarrow> bool" where
  "str_list v = (case v of PList xs \<Rightarrow> list_all is_str xs | _ \<Rightarrow> False)"

definition dict_with :: "string list \<Rightarrow> pyval \<Rightarrow> bool" where
  "dict_with ks v = (case v of PDict d \<Rightarrow> list_all (absent_or is_str d) ks | _ \<Rightarrow> False)"

definition dicts_with :: "string list \<Rightarrow> pyval \<Rightarrow> bool" where
  "dicts_with ks v = (case v of PList xs \<Rightarrow> list_all (dict_with ks) xs | _ \<Rightarrow> False)"

definition blocked_ok :: "pyval \<Rightarrow> bool" where
  "blocked_ok v = (case v of PDict b \<Rightarrow> absent_or str_list b ''blockedPhrases'' | _ \<Rightarrow> False)"

definition shaped_app :: "pyval \<Rightarrow> bool" where
  "shaped_app app =
     (case app of
        PDict d \<Rightarrow>
          list_all (absent_or is_dict d)
            [ ''attachmentsConfiguration'', ''autoSubscriptionConfiguration'',
              ''personalizationConfiguration'', ''qAppsConfiguration'',
              ''quickSightConfiguration'', ''encryptionConfiguration'', ''error'' ] \<and>
          absent_or str_list d ''clientIdsForOIDC''
      | _ \<Rightarrow> False)"

definition shaped_qapp :: "pyval \<Rightarrow> bool" where
  "shaped_qapp qapp =
     (if py_truthy qapp then
        (case qapp of
           PDict d \<Rightarrow>
             absent_or hashable d ''createdBy'' \<and> absent_or hashable d ''updatedBy'' \<and>
             absent_or (dicts_with [''title'']) d ''categories''
         | _ \<Rightarrow> False)
      else True)"

definition shaped_chat_controls :: "pyval \<Rightarrow> bool" where
  "shaped_chat_controls cc =
     (if py_truthy cc then
        (case cc of
           PDict d \<Rightarrow>
             absent_or blocked_ok d ''blockedPhrases'' \<and>
             list_all (absent_or is_dict d)
               [ ''creatorModeConfiguration'', ''hallucinationReductionConfiguration'',
                 ''orchestrationConfiguration'' ] \<and>
             absent_or (dicts_with [''name'']) d ''topicConfigurations''
         | _ \<Rightarrow> False)
      else True)"

definition shaped_user :: "pyval \<Rightarrow> bool" where
  "shaped_user r =
     (case r of
        PDict d \<Rightarrow>
          absent_or (\<lambda>v. case v of PList es \<Rightarrow> list_all is_dict es | _ \<Rightarrow> False) d ''Emails''
      | _ \<Rightarrow> False)"

text \<open>
  The directory fails with client errors only, and a user record it returns has a list of
  dictionaries as \<open>Emails\<close>, if it has any.
\<close>

definition shaped_directory :: "env \<Rightarrow> bool" where
  "shaped_directory env =
     (\<forall>n d u.
        (\<forall>e. world env n (DescribeUser d u) = Inl e \<longrightarrow> (\<exists>c. e = ClientError c)) \<and>
        (\<forall>r. world env n (DescribeUser d u) = Inr r \<longrightarrow> shaped_user r))"

text \<open>A run that ends with a value: no exception, and no loop out of fuel.\<close>

definition returns :: "'a prog \<Rightarrow> state \<Rightarrow> bool" where
  "returns p s = (\<exists>x s'. p s = (Return x, s'))"

text \<open>
  The cache holds nothing for the id "N/A" or the placeholder: so it is in every state of
  a run, since \<open>get_user_details\<close> never looks "N/A" up.
\<close>

definition na_cached_ok :: "state \<Rightarrow> bool" where
  "na_cached_ok s =
     (case user_cache s (PStr ''N/A'') of
        None \<Rightarrow> True
      | Some info \<Rightarrow> info = placeholder_user (PStr ''N/A''))"

text \<open>
  The rows for the aggregate tuple in which everything is absent, without the metadata
  fields. The identity store id is the exporter's, not the tuple's.
\<close>

definition absent_global_row :: "pyval \<Rightarrow> pydict" where
  "absent_global_row store_id =
   [ (''qapp_name'', PStr ''No Q Apps''),
     (''qapp_id'', NA),
     (''qapp_library_item_id'', NA),
     (''qapp_version'', NA),
     (''qapp_status'', NA),
     (''qapp_user_count'', PInt 0),
     (''qapp_creator_user_id'', NA),
     (''qapp_creator_username'', NA),
     (''qapp_creator_email'', NA),
     (''qapp_creator_display_name'', NA),
     (''qapp_created_at'', NA),
     (''qapp_updater_user_id'', NA),
     (''qapp_updater_username'', NA),
     (''qapp_updater_email'', NA),
     (''qapp_updated_at'', NA),
     (''qapp_rating_count'', PInt 0),
     (''qapp_is_verified'', PBool False),
     (''qapp_is_rated_by_user'', PBool False),
     (''qapp_description'', NA),
     (''qapp_categories'', NA),
     (''app_name'', NA),
     (''app_id'', NA),
     (''app_arn'', NA),
     (''app_description'', NA),
     (''app_status'', NA),
     (''app_created_at'', NA),
     (''app_updated_at'', NA),
     (''identity_type'', NA),
     (''identity_center_arn'', NA),
     (''identity_store_id'', py_or store_id NA),
     (''iam_identity_provider_arn'', NA),
     (''client_ids_for_oidc'', PStr []),
     (''role_arn'', NA),
     (''encryption_kms_key'', PStr ''AWS Managed''),
     (''attachments_mode'', NA),
     (''auto_subscribe'', NA),
     (''auto_subscribe_default'', NA),
     (''personalization_mode'', NA),
     (''qapps_mode'', NA),
     (''quicksight_namespace'', NA),
     (''blocked_phrases_count'', PInt 0),
     (''blocked_phrases'', PStr []),
     (''blocked_phrases_system_message'', NA),
     (''creator_mode_control'', NA),
     (''hallucination_reduction_control'', NA),
     (''orchestration_control'', NA),
     (''response_scope'', NA),
     (''topic_count'', PInt 0),
     (''topic_names'', PStr []),
     (''topic_descriptions'', PStr []),
     (''error_code'', NA),
     (''error_message'', NA),
     (''index_id'', NA),
     (''data_source_count'', PInt 0),
     (''data_source_ids'', PStr []),
     (''data_source_types'', PStr []),
     (''data_source_names'', PStr []),
     (''data_source_statuses'', PStr []),
     (''retriever_count'', PInt 0),
     (''retriever_ids'', PStr []),
     (''retriever_types'', PStr []),
     (''retriever_statuses'', PStr []),
     (''plugin_count'', PInt 0),
     (''plugin_ids'', PStr []),
     (''plugin_types'', PStr []),
     (''plugin_statuses'', PStr []) ]"

definition absent_data_row :: pydict where
  "absent_data_row =
   [ (''qbusiness_app_name'', NA),
     (''qbusiness_app_id'', NA),
     (''qbusiness_status'', NA),
     (''qbusiness_identity_type'', NA),
     (''qbusiness_created_at'', NA),
     (''qbusiness_updated_at'', NA),
     (''qbusiness_encryption'', PStr ''AWS Managed'') ] @ data_row_no_qapp"

subsection \<open>Columns of the CSV file\<close>

text \<open>
  The field names that a column configuration of get_qapps_info.py leaves enabled: a
  field name stays unless the configuration maps it to a false value.
\<close>

definition enabled_columns :: "pydict \<Rightarrow> string list" where
  "enabled_columns column_config =
     filter (\<lambda>col. py_truthy (dict_get column_config col (PBool True))) all_fieldnames"

text \<open>The keys of a dictionary after \<open>update\<close>: new keys are appended in their order.\<close>

definition keys_update :: "string list \<Rightarrow> string list \<Rightarrow> string list" where
  "keys_update ks new = foldl (\<lambda>acc k. if k \<in> set acc then acc else acc @ [k]) ks new"

text \<open>A row of \<open>_create_data_row\<close>: the one for an empty application without app-child.\<close>

definition example_data_row :: pydict where
  "example_data_row =
     absent_data_row @
     [ (''retrieval_timestamp'', PStr ''2026-01-12T09:00:00''),
       (''aws_region'', PStr ''us-east-1''),
       (''aws_account'', PStr ''N/A'') ]"

section \<open>Identity resolution: the cache\<close>

lemmas prog_defs = pbind_def pret_def lift_def except_client_def remote_def cache_user_def

lemma get_user_details_hit:
  "hashable user_id \<Longrightarrow> user_cache s (dict_key user_id) = Some info \<Longrightarrow>
   get_user_details env d user_id s = (Return info, s)"
  by (simp add: get_user_details_def)

lemma get_user_details_caches:
  assumes "get_user_details env d user_id s = (Return info, s1)"
  shows "hashable user_id \<and> user_cache s1 (dict_key user_id) = Some info"
  using assms
  by (auto simp: get_user_details_def prog_defs
           split: if_splits option.splits prod.splits outcome.splits error.splits sum.splits)

lemma get_user_details_calls:
  assumes "get_user_details env d user_id s = (r, s1)"
  shows "calls s1 = calls s \<or> calls s1 = calls s @ [DescribeUser d user_id]"
  using assms
  by (auto simp: get_user_details_def prog_defs
           split: if_splits option.splits prod.splits outcome.splits error.splits sum.splits)

text \<open>A call never removes or replaces an entry of the cache.\<close>

lemma get_user_details_grows:
  assumes "get_user_details env d user_id s = (r, s1)"
  shows "user_cache s \<subseteq>\<^sub>m user_cache s1"
  using assms
  by (auto simp: get_user_details_def prog_defs map_le_def
           split: if_splits option.splits prod.splits outcome.splits error.splits sum.splits)

lemma denied_lookup:
  "get_user_details (example_env denying_service inc) (PStr ''d-1'') (PStr ''u-1'') init_state =
     (Return (placeholder_user (PStr ''u-1'')),
      init_state\<lparr>calls := [DescribeUser (PStr ''d-1'') (PStr ''u-1'')],
                 user_cache := [PStr ''u-1'' \<mapsto> placeholder_user (PStr ''u-1'')]\<rparr>)"
  by (simp add: get_user_details_def prog_defs example_env_def denying_service_def init_state_def)

text \<open>
  C2. Resolving the same principal id twice: the second call returns the record of the
  first and leaves the state as it is, so no lookup is made by it, and the first call
  makes at most one describe-user lookup. This holds whatever the first call cached, a
  placeholder included.
\<close>

theorem get_user_details_idempotent:
  assumes "get_user_details env d user_id s = (Return r1, s1)"
  shows "get_user_details env d user_id s1 = (Return r1, s1) \<and>
         describe_calls s1 \<le> describe_calls s + 1"
proof -
  from get_user_details_caches[OF assms]
  have "get_user_details env d user_id s1 = (Return r1, s1)"
    by (simp add: get_user_details_hit)
  moreover from get_user_details_calls[OF assms]
  have "describe_calls s1 \<le> describe_calls s + 1"
    by (auto simp: describe_calls_def)
  ultimately show ?thesis by simp
qed

theorem get_user_details_idempotent_witness:
  "get_user_details (example_env denying_service (PBool True)) (PStr ''d-1'') (PStr ''u-1'')
     (init_state\<lparr>calls := [DescribeUser (PStr ''d-1'') (PStr ''u-1'')],
                 user_cache := [PStr ''u-1'' \<mapsto> placeholder_user (PStr ''u-1'')]\<rparr>) =
     (Return (placeholder_user (PStr ''u-1'')),
      init_state\<lparr>calls := [DescribeUser (PStr ''d-1'') (PStr ''u-1'')],
                 user_cache := [PStr ''u-1'' \<mapsto> placeholder_user (PStr ''u-1'')]\<rparr>) \<and>
   describe_calls
     (init_state\<lparr>calls := [DescribeUser (PStr ''d-1'') (PStr ''u-1'')],
                 user_cache := [PStr ''u-1'' \<mapsto> placeholder_user (PStr ''u-1'')]\<rparr>)
     \<le> describe_calls init_state + 1"
  using get_user_details_idempotent[OF denied_lookup] .

lemma extract_email_loop_dicts:
  "extract_email_loop (map PDict es) =
      Inr (map_option (\<lambda>e. dict_get e ''Value'' (PStr ''N/A''))
             (find (\<lambda>e. py_truthy (dict_get e ''Primary'' (PBool False))) es))"
  by (induction es) auto

text \<open>On a list of email entries the code computes the specification's rule.\<close>

lemma extract_email_dicts:
  assumes "dict_get resp ''Emails'' (PList []) = PList (map PDict entries)"
  shows "extract_email (PDict resp) = Inr (spec_email entries)"
  using assms
  by (cases entries)
     (auto simp: extract_email_def ebind_def spec_email_def extract_email_loop_dicts
           split: option.splits)



text \<open>
  C9. The cache is keyed by the principal id alone. Once a call has returned a record
  for a principal id, a later call with any directory id, in any later state (one whose
  cache still holds what the earlier state's cache held, as every state of the run
  does), returns that record and changes nothing: it makes no lookup. So a principal
  first resolved while no directory id was known keeps its placeholder.
\<close>

theorem user_cache_keyed_by_principal:
  assumes "get_user_details env d_first user_id s = (Return r1, s1)"
    and "user_cache s1 \<subseteq>\<^sub>m user_cache s_later"
  shows "get_user_details env d_later user_id s_later = (Return r1, s_later) \<and>
         (user_cache s (dict_key user_id) = None \<and> \<not> py_truthy d_first \<longrightarrow>
            r1 = placeholder_user user_id)"
proof -
  from get_user_details_caches[OF assms(1)]
  have h: "hashable user_id" and c: "user_cache s1 (dict_key user_id) = Some r1"
    by simp_all
  from c assms(2) have "user_cache s_later (dict_key user_id) = Some r1"
    by (auto simp: map_le_def dom_def)
  with h have "get_user_details env d_later user_id s_later = (Return r1, s_later)"
    by (simp add: get_user_details_hit)
  moreover have "user_cache s (dict_key user_id) = None \<and> \<not> py_truthy d_first \<longrightarrow>
      r1 = placeholder_user user_id"
    using assms(1) by (auto simp: get_user_details_def cache_user_def split: if_splits)
  ultimately show ?thesis by simp
qed

lemma unknown_directory_lookup:
  "get_user_details (example_env directory_service (PBool True)) PNone (PStr ''u-1'') init_state =
     (Return (placeholder_user (PStr ''u-1'')),
      init_state\<lparr>user_cache := [PStr ''u-1'' \<mapsto> placeholder_user (PStr ''u-1'')]\<rparr>)"
  by (simp add: get_user_details_def prog_defs example_env_def init_state_def)

theorem user_cache_keyed_by_principal_witness:
  "get_user_details (example_env directory_service (PBool True)) (PStr ''d-1'') (PStr ''u-1'')
     (init_state\<lparr>user_cache := [PStr ''u-1'' \<mapsto> placeholder_user (PStr ''u-1'')],
                 identity_store_id := PStr ''d-1''\<rparr>) =
     (Return (placeholder_user (PStr ''u-1'')),
      init_state\<lparr>user_cache := [PStr ''u-1'' \<mapsto> placeholder_user (PStr ''u-1'')],
                 identity_store_id := PStr ''d-1''\<rparr>)"
  using user_cache_keyed_by_principal[OF unknown_directory_lookup,
      where s_later = "init_state\<lparr>user_cache := [PStr ''u-1'' \<mapsto> placeholder_user (PStr ''u-1'')],
                 identity_store_id := PStr ''d-1''\<rparr>" and d_later = "PStr ''d-1''"]
  by simp

section \<open>Paginated collection\<close>









text \<open>The same scenario through the whole of \<open>get_qapps\<close> of get_qbusiness_global.py.\<close>

lemma get_qapps_global_five_items:
  "fst (get_qapps_global 1 (example_env library_service (PBool True)) (PStr ''app-1'') init_state) =
     Return [ item_detail (PStr ''item-1''), item_detail (PStr ''item-2''),
              library_item ''item-3'',
              item_detail (PStr ''item-4''), item_detail (PStr ''item-5'') ]"
  by (simp add: get_qapps_global_def collector_def hydrate_def hydrate_item_def prog_defs
        example_env_def library_service_def five_items_def library_item_def init_state_def
        dict_get_def)



text \<open>A list call that fails on a later page empties the result as well.\<close>

lemma collector_client_error_empty:
  assumes "page_loop fuel env mkl key per_page PNone [] s = (Raise (ClientError c), s')"
  shows "collector fuel env mkl key per_page s = (Return [], s')"
  using assms by (simp add: collector_def except_client_def pret_def)



section \<open>Rows per parent\<close>

lemma pbind_Return_iff:
  "pbind m f s = (Return y, s') \<longleftrightarrow>
     (\<exists>x s1. m s = (Return x, s1) \<and> f x s1 = (Return y, s'))"
  by (auto simp: pbind_def split: prod.splits outcome.splits)

lemma pret_Return_iff: "pret x s = (Return y, s') \<longleftrightarrow> (y = x \<and> s' = s)"
  by (auto simp: pret_def)

lemma lift_Return_iff: "lift r s = (Return y, s') \<longleftrightarrow> (r = Inr y \<and> s' = s)"
  by (auto simp: lift_def split: sum.splits)





text \<open>What a returned row of \<open>_create_global_row\<close> is made of.\<close>

lemma create_global_row_fields:
  assumes "create_global_row env app qapp ds rs ps idx cc s = (Return row, s')"
  shows "\<exists>att au pe qc qs bpc cm hr orc tc cid uid ci ui sid now row0.
           get_if qapp ''createdBy'' NA NA = Inr cid \<and>
           get_if qapp ''updatedBy'' NA NA = Inr uid \<and>
           collect (row_fields env app qapp ds rs ps idx cc att au pe qc qs bpc cm hr orc tc
                      cid uid ci ui sid) = Inr row0 \<and>
           row = row0 @ metadata_fields env ''export_timestamp'' now"
  using assms
  unfolding create_global_row_def pbind_Return_iff lift_Return_iff pret_Return_iff
  by blast








lemmas eval_defs =
  process_app_def discover_identity_store_def get_index_id_def get_qapps_def
  get_retrievers_def get_plugins_def get_chat_controls_def get_data_sources_def
  collector_def hydrate_def hydrate_item_def create_rows_def create_global_row_def
  get_user_details_def placeholder_user_def row_fields_def metadata_fields_def read_clock_def
  get_if_def join_field_def py_join_def py_str_def str_of_def py_or_def NA_def
  ebind_def dict_get_def
  pbind_def pret_def lift_def except_client_def remote_def cache_user_def
  example_env_def init_state_def








section \<open>Discovery of the identity store\<close>

text \<open>Once an identity store id is known, no application causes another discovery.\<close>

lemma discover_identity_store_known:
  "py_truthy (identity_store_id s) \<Longrightarrow> discover_identity_store env app s = (Return (), s)"
  by (simp add: discover_identity_store_def)

text \<open>
  C5. The discovery is guarded by \<open>if not self.identity_store_id\<close>, and a discovery that
  fails leaves \<open>None\<close> there. With two applications that use IAM Identity Center and a
  \<open>list_instances\<close> call that is denied, the run calls \<open>list_instances\<close> twice.
\<close>

theorem discovery_repeated_after_failure:
  "list_instances_calls
     (snd (export_all_data 1 (example_env idc_service (PBool True)) init_state)) = 2"
  by (simp add: export_all_data_def list_applications_def get_identity_store_id_def eval_defs
        idc_service_def idc_application_def list_instances_calls_def)

section \<open>A failed fetch and an empty one\<close>






















section \<open>Row flattening on absent and on malformed fields\<close>

lemma is_ok_Inr [simp]: "is_ok (Inr x)"
  by (simp add: is_ok_def)

lemma is_ok_Inl [simp]: "\<not> is_ok (Inl e)"
  by (simp add: is_ok_def)

lemma is_ok_iff: "is_ok r \<longleftrightarrow> (\<exists>x. r = Inr x)"
  by (cases r) simp_all

lemma is_dictE: "is_dict v \<Longrightarrow> (\<And>d. v = PDict d \<Longrightarrow> P) \<Longrightarrow> P"
  by (cases v) simp_all

lemma is_strE: "is_str v \<Longrightarrow> (\<And>s. v = PStr s \<Longrightarrow> P) \<Longrightarrow> P"
  by (cases v) simp_all

lemma is_ok_py_get: "is_dict v \<Longrightarrow> is_ok (py_get v k dflt)"
  by (erule is_dictE) simp

lemma dict_get_shape: "absent_or P d k \<Longrightarrow> P dflt \<Longrightarrow> P (dict_get d k dflt)"
  by (simp add: absent_or_def dict_get_def split: option.splits)

lemma the_strs_map: "the_strs (map PStr ss) = Inr ss"
  by (induction ss) simp_all

lemma strs_are_map: "list_all is_str xs \<Longrightarrow> \<exists>ss. xs = map PStr ss"
proof (induction xs)
  case Nil
  then show ?case by simp
next
  case (Cons x xs)
  then obtain ss where "xs = map PStr ss" by auto
  moreover from Cons.prems obtain s where "x = PStr s" by (auto elim: is_strE)
  ultimately have "x # xs = map PStr (s # ss)" by simp
  then show ?case by (rule exI[of _ "s # ss"])
qed

lemma is_ok_py_join: "list_all is_str xs \<Longrightarrow> is_ok (py_join sep xs)"
  by (auto dest!: strs_are_map simp: py_join_def the_strs_map)

lemma is_ok_iter_join: "str_list v \<Longrightarrow> is_ok (ebind (py_iter v) (py_join sep))"
  by (cases v) (simp_all add: str_list_def ebind_def is_ok_py_join)

lemma comprehension_all:
  "list_all (\<lambda>x. \<exists>y. f x = Inr y \<and> P y) xs \<Longrightarrow>
   \<exists>ys. comprehension f xs = Inr ys \<and> list_all P ys"
  by (induction xs) auto

lemma dict_with_get:
  "dict_with ks x \<Longrightarrow> k \<in> set ks \<Longrightarrow> is_str dflt \<Longrightarrow>
   \<exists>y. py_get x k dflt = Inr y \<and> is_str y"
  by (cases x) (auto simp: dict_with_def list_all_iff intro: dict_get_shape)

lemma is_ok_join_field:
  assumes "list_all (dict_with ks) xs" and "k \<in> set ks" and "is_str dflt"
  shows "is_ok (join_field sep k dflt xs)"
proof -
  from assms have "list_all (\<lambda>x. \<exists>y. py_get x k dflt = Inr y \<and> is_str y) xs"
    by (auto simp: list_all_iff intro!: dict_with_get)
  from comprehension_all[OF this] show ?thesis
    by (auto simp: join_field_def ebind_def is_ok_py_join)
qed

lemma is_ok_get_if: "\<not> py_truthy x \<or> is_dict x \<Longrightarrow> is_ok (get_if x k dflt other)"
  by (auto simp: get_if_def is_ok_py_get)

lemma collect_ok: "list_all (\<lambda>kc. is_ok (snd kc)) fs \<Longrightarrow> is_ok (collect fs)"
  by (induction fs) (auto simp: is_ok_iff split: sum.splits)

lemma blocked_okE: "blocked_ok v \<Longrightarrow> (\<And>b. v = PDict b \<Longrightarrow> absent_or str_list b ''blockedPhrases'' \<Longrightarrow> P) \<Longrightarrow> P"
  by (cases v) (simp_all add: blocked_ok_def)

lemma str_list_empty [simp]: "str_list (PList [])"
  by (simp add: str_list_def)

lemma str_list_len: "str_list v \<Longrightarrow> is_ok (py_len v)"
  by (cases v) (simp_all add: str_list_def)

lemma dicts_with_len: "dicts_with ks v \<Longrightarrow> is_ok (py_len v)"
  by (cases v) (simp_all add: dicts_with_def)

lemma dicts_with_join:
  "dicts_with ks v \<Longrightarrow> k \<in> set ks \<Longrightarrow> is_str dflt \<Longrightarrow>
   is_ok (ebind (py_iter v) (join_field sep k dflt))"
  by (cases v) (simp_all add: dicts_with_def ebind_def is_ok_join_field)

lemma dicts_with_empty [simp]: "dicts_with ks (PList [])"
  by (simp add: dicts_with_def)

lemma topic_description_ok:
  "dict_with ks t \<Longrightarrow>
   \<exists>y. ebind (py_get t ''name'' nm) (\<lambda>n.
          ebind (py_get t ''description'' ds) (\<lambda>d.
            Inr (PStr (str_of env n @ '': '' @ str_of env d)))) = Inr y \<and> is_str y"
  by (cases t) (simp_all add: dict_with_def ebind_def)

lemma topic_descriptions_ok:
  assumes "dicts_with ks v"
  shows "is_ok (ebind (py_iter v) (\<lambda>ts.
        ebind (comprehension
                 (\<lambda>t. ebind (py_get t ''name'' nm) (\<lambda>n.
                      ebind (py_get t ''description'' ds) (\<lambda>d.
                        Inr (PStr (str_of env n @ '': '' @ str_of env d)))))
                 ts)
          (py_join '' | '')))"
proof -
  from assms obtain xs where v: "v = PList xs" and xs: "list_all (dict_with ks) xs"
    by (cases v) (simp_all add: dicts_with_def)
  have "list_all (\<lambda>t. \<exists>y. ebind (py_get t ''name'' nm) (\<lambda>n.
                      ebind (py_get t ''description'' ds) (\<lambda>d.
                        Inr (PStr (str_of env n @ '': '' @ str_of env d)))) = Inr y \<and> is_str y) xs"
    using xs topic_description_ok unfolding list_all_iff by blast
  from comprehension_all[OF this] obtain ys where
    "comprehension
                 (\<lambda>t. ebind (py_get t ''name'' nm) (\<lambda>n.
                      ebind (py_get t ''description'' ds) (\<lambda>d.
                        Inr (PStr (str_of env n @ '': '' @ str_of env d)))))
                 xs = Inr ys" and "list_all is_str ys" by blast
  then show ?thesis
    by (simp add: v ebind_def is_ok_py_join)
qed

lemma row_fields_ok:
  assumes "shaped_app app" and "shaped_qapp qapp"
    and ds: "list_all (dict_with [''dataSourceId'', ''type'', ''displayName'', ''status'']) ds"
    and rs: "list_all (dict_with [''retrieverId'', ''type'', ''status'']) rs"
    and ps: "list_all (dict_with [''pluginId'', ''type'', ''status'']) ps"
    and "shaped_chat_controls cc"
    and "is_dict att" "is_dict au" "is_dict pe" "is_dict qc" "is_dict qs"
    and "blocked_ok bpc" "is_dict cm" "is_dict hr" "is_dict orc"
    and tc: "dicts_with [''name''] tc"
  shows "is_ok (collect (row_fields env app qapp ds rs ps idx cc att au pe qc qs bpc cm hr orc tc
                           cid uid ci ui sid))"
proof -
  from assms(1) obtain a where app: "app = PDict a"
    and a1: "absent_or is_dict a ''encryptionConfiguration''"
    and a2: "absent_or is_dict a ''error''"
    and a3: "absent_or str_list a ''clientIdsForOIDC''"
    by (cases app) (simp_all add: shaped_app_def)
  from assms(12) obtain b where bpc: "bpc = PDict b" and b1: "absent_or str_list b ''blockedPhrases''"
    by (rule blocked_okE)
  from assms(7-11) assms(13-15) obtain d1 d2 d3 d4 d5 d6 d7 d8 where
    dicts: "att = PDict d1" "au = PDict d2" "pe = PDict d3" "qc = PDict d4" "qs = PDict d5"
      "cm = PDict d6" "hr = PDict d7" "orc = PDict d8"
    by (elim is_dictE) blast
  have enc: "is_dict (dict_get a ''encryptionConfiguration'' (PDict []))"
    using a1 by (rule dict_get_shape) simp
  then obtain e1 where e1: "dict_get a ''encryptionConfiguration'' (PDict []) = PDict e1"
    by (rule is_dictE)
  have err: "is_dict (dict_get a ''error'' (PDict []))"
    using a2 by (rule dict_get_shape) simp
  then obtain e2 where e2: "dict_get a ''error'' (PDict []) = PDict e2"
    by (rule is_dictE)
  have oidc: "is_ok (ebind (py_iter (dict_get a ''clientIdsForOIDC'' (PList []))) (py_join '', ''))"
    by (intro is_ok_iter_join dict_get_shape[OF a3]) simp
  have bp: "str_list (dict_get b ''blockedPhrases'' (PList []))"
    using b1 by (rule dict_get_shape) simp
  have bp1: "is_ok (py_len (dict_get b ''blockedPhrases'' (PList [])))"
    using bp by (rule str_list_len)
  have bp2: "is_ok (ebind (py_iter (dict_get b ''blockedPhrases'' (PList []))) (py_join ''; ''))"
    using bp by (rule is_ok_iter_join)
  have joins:
    "is_ok (join_field '', '' ''dataSourceId'' (PStr ''N/A'') ds)"
    "is_ok (join_field '', '' ''type'' (PStr ''N/A'') ds)"
    "is_ok (join_field '', '' ''displayName'' (PStr ''N/A'') ds)"
    "is_ok (join_field '', '' ''status'' (PStr ''N/A'') ds)"
    "is_ok (join_field '', '' ''retrieverId'' (PStr ''N/A'') rs)"
    "is_ok (join_field '', '' ''type'' (PStr ''N/A'') rs)"
    "is_ok (join_field '', '' ''status'' (PStr ''N/A'') rs)"
    "is_ok (join_field '', '' ''pluginId'' (PStr ''N/A'') ps)"
    "is_ok (join_field '', '' ''type'' (PStr ''N/A'') ps)"
    "is_ok (join_field '', '' ''status'' (PStr ''N/A'') ps)"
    by (rule is_ok_join_field[OF ds] is_ok_join_field[OF rs] is_ok_join_field[OF ps], simp, simp)+
  have topics:
    "is_ok (py_len tc)"
    "is_ok (ebind (py_iter tc) (join_field '', '' ''name'' (PStr ''N/A'')))"
    "is_ok (ebind (py_iter tc) (\<lambda>ts.
        ebind (comprehension
                 (\<lambda>t. ebind (py_get t ''name'' (PStr ''N/A'')) (\<lambda>n.
                      ebind (py_get t ''description'' (PStr ''N/A'')) (\<lambda>d.
                        Inr (PStr (str_of env n @ '': '' @ str_of env d)))))
                 ts)
          (py_join '' | '')))"
    using tc
    by (simp add: dicts_with_len, simp add: dicts_with_join, rule topic_descriptions_ok)
  have c: "\<not> py_truthy cc \<or> is_dict cc"
    using assms(6) by (cases cc) (auto simp: shaped_chat_controls_def split: if_splits)
  then have rscope: "is_ok (get_if cc ''responseScope'' (PStr ''N/A'') (PStr ''N/A''))"
    by (rule is_ok_get_if)
  show ?thesis
  proof (cases "py_truthy qapp")
    case False
    show ?thesis
      apply (rule collect_ok)
      unfolding row_fields_def
      using False topics(3)
      apply (simp add: app bpc dicts e1 e2 ebind_def get_if_def NA_def oidc[unfolded ebind_def]
          bp1 bp2[unfolded ebind_def] joins topics[unfolded ebind_def] rscope[unfolded get_if_def])
      done
  next
    case True
    with assms(2) obtain q where q: "qapp = PDict q"
      and q1: "absent_or (dicts_with [''title'']) q ''categories''"
      by (cases qapp) (auto simp: shaped_qapp_def)
    have "dicts_with [''title''] (dict_get q ''categories'' (PList []))"
      using q1 by (rule dict_get_shape) simp
    then have cats: "is_ok (ebind (py_iter (dict_get q ''categories'' (PList [])))
        (join_field '', '' ''title'' (PStr [])))"
      by (rule dicts_with_join) simp_all
    show ?thesis
      apply (rule collect_ok)
      unfolding row_fields_def
      using True topics(3)
      apply (simp add: q app bpc dicts e1 e2 ebind_def get_if_def NA_def oidc[unfolded ebind_def]
          bp1 bp2[unfolded ebind_def] joins topics[unfolded ebind_def] rscope[unfolded get_if_def]
          cats[unfolded ebind_def])
      done
  qed
qed

lemma dicts_are_map: "list_all is_dict xs \<Longrightarrow> \<exists>ds. xs = map PDict ds"
proof (induction xs)
  case Nil
  then show ?case by simp
next
  case (Cons x xs)
  then obtain ds where "xs = map PDict ds" by auto
  moreover from Cons.prems obtain d where "x = PDict d" by (auto elim: is_dictE)
  ultimately have "x # xs = map PDict (d # ds)" by simp
  then show ?case by (rule exI[of _ "d # ds"])
qed

lemma shaped_userE:
  assumes "shaped_user r"
  obtains d ds where "r = PDict d" and "dict_get d ''Emails'' (PList []) = PList (map PDict ds)"
proof -
  from assms obtain d where r: "r = PDict d"
    and e: "absent_or (\<lambda>v. case v of PList es \<Rightarrow> list_all is_dict es | _ \<Rightarrow> False) d ''Emails''"
    by (cases r) (simp_all add: shaped_user_def)
  from e have "(\<lambda>v. case v of PList es \<Rightarrow> list_all is_dict es | _ \<Rightarrow> False)
      (dict_get d ''Emails'' (PList []))"
    by (rule dict_get_shape) simp
  then obtain es where es: "dict_get d ''Emails'' (PList []) = PList es" and "list_all is_dict es"
    by (cases "dict_get d ''Emails'' (PList [])") simp_all
  with dicts_are_map obtain ds where "es = map PDict ds" by blast
  with es r that show ?thesis by blast
qed

lemma get_user_details_returns:
  assumes "hashable user_id" and "shaped_directory env"
  shows "returns (get_user_details env d user_id) s"
proof (cases "user_cache s (dict_key user_id)")
  case (Some info)
  with assms(1) show ?thesis by (simp add: returns_def get_user_details_def)
next
  case None
  show ?thesis
  proof (cases "\<not> py_truthy d \<or> user_id = PStr ''N/A''")
    case True
    with None assms(1) show ?thesis
      by (auto simp: returns_def get_user_details_def cache_user_def)
  next
    case False
    show ?thesis
    proof (cases "world env (length (calls s)) (DescribeUser d user_id)")
      case (Inl e)
      with assms(2) obtain c where "e = ClientError c"
        unfolding shaped_directory_def by blast
      with Inl None False assms(1) show ?thesis
        by (auto simp: returns_def get_user_details_def prog_defs)
    next
      case (Inr r)
      with assms(2) have "shaped_user r"
        unfolding shaped_directory_def by blast
      then obtain dd ds where "r = PDict dd"
        and "dict_get dd ''Emails'' (PList []) = PList (map PDict ds)"
        by (rule shaped_userE)
      with Inr None False assms(1) show ?thesis
        by (auto simp: returns_def get_user_details_def prog_defs extract_email_dicts)
    qed
  qed
qed

lemma blocked_ok_empty [simp]: "blocked_ok (PDict [])"
  by (simp add: blocked_ok_def absent_or_def)

lemma chat_controls_blocked:
  assumes "shaped_chat_controls cc"
  shows "\<exists>v. get_if cc ''blockedPhrases'' (PDict []) (PDict []) = Inr v \<and> blocked_ok v"
proof (cases "py_truthy cc")
  case False
  then show ?thesis by (simp add: get_if_def)
next
  case True
  with assms obtain c where "cc = PDict c" and "absent_or blocked_ok c ''blockedPhrases''"
    by (cases cc) (simp_all add: shaped_chat_controls_def)
  with True show ?thesis
    by (simp add: get_if_def dict_get_shape)
qed

lemma chat_controls_dict:
  assumes "shaped_chat_controls cc"
    and "k \<in> set [ ''creatorModeConfiguration'', ''hallucinationReductionConfiguration'',
                 ''orchestrationConfiguration'' ]"
  shows "\<exists>v. get_if cc k (PDict []) (PDict []) = Inr v \<and> is_dict v"
proof (cases "py_truthy cc")
  case False
  then show ?thesis by (simp add: get_if_def)
next
  case True
  with assms(1) obtain c where c: "cc = PDict c"
    and "list_all (absent_or is_dict c)
               [ ''creatorModeConfiguration'', ''hallucinationReductionConfiguration'',
                 ''orchestrationConfiguration'' ]"
    by (cases cc) (simp_all add: shaped_chat_controls_def)
  with assms(2) have "absent_or is_dict c k" unfolding list_all_iff by blast
  then have "is_dict (dict_get c k (PDict []))" by (rule dict_get_shape) simp
  with True c show ?thesis by (simp add: get_if_def)
qed

lemma chat_controls_topics:
  assumes "shaped_chat_controls cc"
  shows "\<exists>v. get_if cc ''topicConfigurations'' (PList []) (PList []) = Inr v \<and>
               dicts_with [''name''] v"
proof (cases "py_truthy cc")
  case False
  then show ?thesis by (simp add: get_if_def)
next
  case True
  with assms obtain c where "cc = PDict c"
    and "absent_or (dicts_with [''name'']) c ''topicConfigurations''"
    by (cases cc) (simp_all add: shaped_chat_controls_def)
  with True show ?thesis
    by (simp add: get_if_def dict_get_shape)
qed

lemma qapp_principal:
  assumes "shaped_qapp qapp" and "k = ''createdBy'' \<or> k = ''updatedBy''"
  shows "\<exists>v. get_if qapp k NA NA = Inr v \<and> hashable v"
proof (cases "py_truthy qapp")
  case False
  then show ?thesis by (simp add: get_if_def NA_def)
next
  case True
  with assms(1) obtain q where q: "qapp = PDict q"
    and "absent_or hashable q ''createdBy''" and "absent_or hashable q ''updatedBy''"
    by (cases qapp) (simp_all add: shaped_qapp_def)
  with assms(2) have "absent_or hashable q k" by blast
  then have "hashable (dict_get q k NA)" by (rule dict_get_shape) (simp add: NA_def)
  with True q show ?thesis by (simp add: get_if_def)
qed

lemma app_configuration:
  assumes "shaped_app app"
    and "k \<in> set [ ''attachmentsConfiguration'', ''autoSubscriptionConfiguration'',
              ''personalizationConfiguration'', ''qAppsConfiguration'',
              ''quickSightConfiguration'' ]"
  shows "\<exists>v. py_get app k (PDict []) = Inr v \<and> is_dict v"
proof -
  from assms(1) obtain a where a: "app = PDict a"
    and cfg: "list_all (absent_or is_dict a)
            [ ''attachmentsConfiguration'', ''autoSubscriptionConfiguration'',
              ''personalizationConfiguration'', ''qAppsConfiguration'',
              ''quickSightConfiguration'', ''encryptionConfiguration'', ''error'' ]"
    by (cases app) (simp_all add: shaped_app_def)
  from cfg assms(2) have "absent_or is_dict a k" unfolding list_all_iff by auto
  then have "is_dict (dict_get a k (PDict []))" by (rule dict_get_shape) simp
  with a show ?thesis by simp
qed

lemma create_global_row_returns:
  assumes app: "shaped_app app" and qapp: "shaped_qapp qapp"
    and ds: "list_all (dict_with [''dataSourceId'', ''type'', ''displayName'', ''status'']) ds"
    and rs: "list_all (dict_with [''retrieverId'', ''type'', ''status'']) rs"
    and ps: "list_all (dict_with [''pluginId'', ''type'', ''status'']) ps"
    and cc: "shaped_chat_controls cc"
    and dir: "shaped_directory env"
  shows "returns (create_global_row env app qapp ds rs ps idx cc) s"
proof -
  from app_configuration[OF app] obtain att au pe qc qs where
    cfg: "py_get app ''attachmentsConfiguration'' (PDict []) = Inr att"
      "py_get app ''autoSubscriptionConfiguration'' (PDict []) = Inr au"
      "py_get app ''personalizationConfiguration'' (PDict []) = Inr pe"
      "py_get app ''qAppsConfiguration'' (PDict []) = Inr qc"
      "py_get app ''quickSightConfiguration'' (PDict []) = Inr qs"
    and cfgd: "is_dict att" "is_dict au" "is_dict pe" "is_dict qc" "is_dict qs"
    by (metis list.set_intros(1) list.set_intros(2))
  from chat_controls_blocked[OF cc] obtain bpc where
    bpc: "get_if cc ''blockedPhrases'' (PDict []) (PDict []) = Inr bpc" "blocked_ok bpc"
    by blast
  from chat_controls_dict[OF cc] obtain cm hr orc where
    ccs: "get_if cc ''creatorModeConfiguration'' (PDict []) (PDict []) = Inr cm"
      "get_if cc ''hallucinationReductionConfiguration'' (PDict []) (PDict []) = Inr hr"
      "get_if cc ''orchestrationConfiguration'' (PDict []) (PDict []) = Inr orc"
    and ccd: "is_dict cm" "is_dict hr" "is_dict orc"
    by (metis list.set_intros(1) list.set_intros(2))
  from chat_controls_topics[OF cc] obtain tc where
    tc: "get_if cc ''topicConfigurations'' (PList []) (PList []) = Inr tc" "dicts_with [''name''] tc"
    by blast
  from qapp_principal[OF qapp] obtain cid uid where
    ids: "get_if qapp ''createdBy'' NA NA = Inr cid" "get_if qapp ''updatedBy'' NA NA = Inr uid"
    and hs: "hashable cid" "hashable uid"
    by metis
  from get_user_details_returns[OF hs(1) dir] obtain ci s1 where
    g1: "get_user_details env (identity_store_id s) cid s = (Return ci, s1)"
    unfolding returns_def by blast
  from get_user_details_returns[OF hs(2) dir] obtain ui s2 where
    g2: "get_user_details env (identity_store_id s1) uid s1 = (Return ui, s2)"
    unfolding returns_def by blast
  from row_fields_ok[OF app qapp ds rs ps cc cfgd bpc(2) ccd tc(2)] obtain row0 where
    row0: "collect (row_fields env app qapp ds rs ps idx cc att au pe qc qs bpc cm hr orc tc
                           cid uid ci ui (identity_store_id s2)) = Inr row0"
    unfolding is_ok_iff by blast
  show ?thesis
    unfolding create_global_row_def returns_def
    by (simp add: pbind_def lift_def pret_def read_clock_def cfg bpc(1) ccs tc(1) ids g1 g2 row0)
qed

lemma na_lookup:
  assumes "na_cached_ok s"
  shows "\<exists>s1. get_user_details env d (PStr ''N/A'') s = (Return (placeholder_user (PStr ''N/A'')), s1) \<and>
           na_cached_ok s1 \<and> identity_store_id s1 = identity_store_id s \<and>
           clock_reads s1 = clock_reads s"
  using assms
  by (cases "user_cache s (PStr ''N/A'')")
     (simp_all add: get_user_details_def cache_user_def na_cached_ok_def)

lemma absent_global_row_result:
  assumes "na_cached_ok s"
  shows "fst (create_global_row env (PDict []) PNone [] [] [] PNone (PDict []) s) =
           Return (absent_global_row (identity_store_id s) @
                   metadata_fields env ''export_timestamp'' (PStr (now_iso env (clock_reads s))))"
proof -
  from na_lookup[OF assms] obtain s1 where
    g1: "get_user_details env (identity_store_id s) (PStr ''N/A'') s =
           (Return (placeholder_user (PStr ''N/A'')), s1)"
    and ok1: "na_cached_ok s1" and st1: "identity_store_id s1 = identity_store_id s"
    and ck1: "clock_reads s1 = clock_reads s"
    by blast
  from na_lookup[OF ok1] obtain s2 where
    g2: "get_user_details env (identity_store_id s1) (PStr ''N/A'') s1 =
           (Return (placeholder_user (PStr ''N/A'')), s2)"
    and st2: "identity_store_id s2 = identity_store_id s1"
    and ck2: "clock_reads s2 = clock_reads s1"
    by blast
  have fields: "collect (row_fields env (PDict []) PNone [] [] [] PNone (PDict [])
      (PDict []) (PDict []) (PDict []) (PDict []) (PDict [])
      (PDict []) (PDict []) (PDict []) (PDict []) (PList [])
      NA NA (placeholder_user (PStr ''N/A'')) (placeholder_user (PStr ''N/A''))
      (identity_store_id s)) = Inr (absent_global_row (identity_store_id s))"
    by (simp add: row_fields_def absent_global_row_def get_if_def join_field_def py_join_def
          py_str_def str_of_def py_or_def NA_def ebind_def dict_get_def placeholder_user_def)
  show ?thesis
    unfolding create_global_row_def
    using g1 g2 fields
    by (simp add: pbind_def lift_def pret_def read_clock_def get_if_def dict_get_def
          st1 st2 ck1 ck2 NA_def)
qed

lemma absent_data_row_result:
  "fst (create_data_row env (PDict []) PNone s) =
     Return (absent_data_row @
             metadata_fields env ''retrieval_timestamp'' (PStr (now_iso env (clock_reads s))))"
  by (simp add: create_data_row_def data_row_app_fields_def data_row_no_qapp_def
        absent_data_row_def metadata_fields_def dict_update_def read_clock_def
        pbind_def lift_def pret_def ebind_def dict_get_def py_str_def str_of_def NA_def)

lemma create_data_row_returns:
  assumes app: "shaped_app app" and qapp: "shaped_qapp qapp"
  shows "returns (create_data_row env app qapp) s"
proof -
  from app obtain a where a: "app = PDict a"
    and a1: "absent_or is_dict a ''encryptionConfiguration''"
    by (cases app) (simp_all add: shaped_app_def)
  have "is_dict (dict_get a ''encryptionConfiguration'' (PDict []))"
    using a1 by (rule dict_get_shape) simp
  then obtain e1 where e1: "dict_get a ''encryptionConfiguration'' (PDict []) = PDict e1"
    by (rule is_dictE)
  have "is_ok (collect (data_row_app_fields env app))"
    by (rule collect_ok) (simp add: data_row_app_fields_def a e1 ebind_def)
  then obtain row0 where row0: "collect (data_row_app_fields env app) = Inr row0"
    unfolding is_ok_iff by blast
  show ?thesis
  proof (cases "py_truthy qapp")
    case False
    with row0 show ?thesis
      by (simp add: returns_def create_data_row_def pbind_def lift_def pret_def read_clock_def)
  next
    case True
    with qapp obtain q where q: "qapp = PDict q"
      and q1: "absent_or (dicts_with [''title'']) q ''categories''"
      by (cases qapp) (auto simp: shaped_qapp_def)
    have "dicts_with [''title''] (dict_get q ''categories'' (PList []))"
      using q1 by (rule dict_get_shape) simp
    then have cats: "is_ok (ebind (py_iter (dict_get q ''categories'' (PList [])))
        (join_field '', '' ''title'' (PStr [])))"
      by (rule dicts_with_join) simp_all
    have "is_ok (collect (data_row_qapp_fields env qapp))"
      by (rule collect_ok)
         (simp add: data_row_qapp_fields_def q ebind_def cats[unfolded ebind_def])
    then obtain other where "collect (data_row_qapp_fields env qapp) = Inr other"
      unfolding is_ok_iff by blast
    with True row0 show ?thesis
      by (simp add: returns_def create_data_row_def pbind_def lift_def pret_def read_clock_def)
  qed
qed

lemma na_cached_ok_init: "na_cached_ok init_state"
  by (simp add: na_cached_ok_def init_state_def)

lemma dict_key_NA: "dict_key u = PStr ''N/A'' \<longleftrightarrow> u = PStr ''N/A''"
  by (cases u) simp_all

lemma get_user_details_keeps_na:
  assumes "na_cached_ok s" and "get_user_details env d u s = (r, s')"
  shows "na_cached_ok s'"
proof (cases "u = PStr ''N/A''")
  case True
  with na_lookup[OF assms(1), of env d] assms(2) show ?thesis by auto
next
  case False
  then have k: "dict_key u \<noteq> PStr ''N/A''" by (simp add: dict_key_NA)
  from get_user_details_grows[OF assms(2)] have "user_cache s \<subseteq>\<^sub>m user_cache s'" .
  have "user_cache s' (PStr ''N/A'') = user_cache s (PStr ''N/A'')"
    using assms(2) k
    by (auto simp: get_user_details_def prog_defs
             split: if_splits option.splits prod.splits outcome.splits error.splits sum.splits)
  with assms(1) show ?thesis by (simp add: na_cached_ok_def)
qed

lemma denying_directory_shaped: "shaped_directory (example_env denying_service inc)"
  by (simp add: shaped_directory_def example_env_def denying_service_def)

lemma alice_directory_shaped: "shaped_directory (example_env directory_service inc)"
  by (simp add: shaped_directory_def example_env_def directory_service_def alice_response_def
        shaped_user_def absent_or_def)

text \<open>
  C8, as the code has it. For every aggregate tuple whose fields are absent or of the
  service's shape (and, for \<open>_create_global_row\<close>, a directory that fails with client
  errors only), \<open>_create_global_row\<close> and \<open>_create_data_row\<close> return a row. For the
  tuple in which everything is absent (empty application, no app-child, empty
  collections, no index, empty chat controls) the row holds the placeholder in every
  field that comes from the tuple: "N/A", "No Q Apps" or "AWS Managed" for strings, 0
  for counts, false for booleans, the empty string for joined collections; the metadata
  fields hold the clock reading, the region and the account.
\<close>

theorem flattening_total_on_shaped:
  "(shaped_app app \<and> shaped_qapp qapp \<and>
    list_all (dict_with [''dataSourceId'', ''type'', ''displayName'', ''status'']) data_sources \<and>
    list_all (dict_with [''retrieverId'', ''type'', ''status'']) retrievers \<and>
    list_all (dict_with [''pluginId'', ''type'', ''status'']) plugins \<and>
    shaped_chat_controls chat_controls \<and> shaped_directory env \<longrightarrow>
      returns (create_global_row env app qapp data_sources retrievers plugins index_id
                 chat_controls) s) \<and>
   (shaped_app app \<and> shaped_qapp qapp \<longrightarrow> returns (create_data_row env app qapp) s) \<and>
   (na_cached_ok s \<longrightarrow>
      fst (create_global_row env (PDict []) PNone [] [] [] PNone (PDict []) s) =
        Return (absent_global_row (identity_store_id s) @
                metadata_fields env ''export_timestamp''
                  (PStr (now_iso env (clock_reads s))))) \<and>
   fst (create_data_row env (PDict []) PNone s) =
     Return (absent_data_row @
             metadata_fields env ''retrieval_timestamp'' (PStr (now_iso env (clock_reads s))))"
  using create_global_row_returns create_data_row_returns absent_global_row_result
    absent_data_row_result
  by blast

lemma example_shapes:
  "shaped_app app_A"
  "shaped_qapp (PDict [(''libraryItemId'', PStr ''item-1''), (''createdBy'', PStr ''u-1'')])"
  "shaped_chat_controls (PDict [])"
  by (simp_all add: shaped_app_def app_A_def absent_or_def shaped_qapp_def
        shaped_chat_controls_def)

theorem flattening_total_on_shaped_witness:
  "returns (create_global_row (example_env directory_service (PBool True)) app_A
              (PDict [(''libraryItemId'', PStr ''item-1''), (''createdBy'', PStr ''u-1'')])
              [] [] [] PNone (PDict [])) init_state \<and>
   returns (create_data_row (example_env directory_service (PBool True)) app_A
              (PDict [(''libraryItemId'', PStr ''item-1''), (''createdBy'', PStr ''u-1'')]))
     init_state \<and>
   fst (create_global_row (example_env directory_service (PBool True)) (PDict []) PNone
          [] [] [] PNone (PDict []) init_state) =
     Return (absent_global_row PNone @
             [ (''export_timestamp'', PStr ''2026-01-12T09:00:00''),
               (''aws_region'', PStr ''us-east-1''),
               (''aws_account'', PStr ''N/A'') ]) \<and>
   fst (create_data_row (example_env directory_service (PBool True)) (PDict []) PNone
          init_state) =
     Return (absent_data_row @
             [ (''retrieval_timestamp'', PStr ''2026-01-12T09:00:00''),
               (''aws_region'', PStr ''us-east-1''),
               (''aws_account'', PStr ''N/A'') ])"
proof -
  note th = flattening_total_on_shaped[where app = app_A
      and qapp = "PDict [(''libraryItemId'', PStr ''item-1''), (''createdBy'', PStr ''u-1'')]"
      and data_sources = "[]" and retrievers = "[]" and plugins = "[]"
      and chat_controls = "PDict []" and index_id = PNone
      and env = "example_env directory_service (PBool True)" and s = init_state]
  have meta: "metadata_fields (example_env directory_service (PBool True)) k
        (PStr (now_iso (example_env directory_service (PBool True)) (clock_reads init_state))) =
      [ (k, PStr ''2026-01-12T09:00:00''), (''aws_region'', PStr ''us-east-1''),
        (''aws_account'', PStr ''N/A'') ]" for k
    by (simp add: metadata_fields_def example_env_def py_or_def NA_def)
  have store: "identity_store_id init_state = PNone"
    by (simp add: init_state_def)
  from th example_shapes alice_directory_shaped na_cached_ok_init
  show ?thesis
    by (simp add: meta store)
qed

text \<open>
  C8 as it is stated fails on a tuple with a malformed field: an application whose
  \<open>encryptionConfiguration\<close> is \<open>None\<close> makes \<open>_create_global_row\<close> raise.
\<close>

theorem flattening_raises_on_malformed:
  "fst (create_global_row (example_env denying_service (PBool True))
          (PDict [(''encryptionConfiguration'', PNone)]) PNone [] [] [] PNone (PDict [])
          init_state) = Raise AttributeError"
  by (simp add: create_global_row_def row_fields_def get_user_details_def placeholder_user_def
        get_if_def join_field_def py_join_def py_str_def str_of_def py_or_def NA_def
        ebind_def dict_get_def prog_defs example_env_def init_state_def)

section \<open>CSV export\<close>

lemma csv_fieldnames_enabled: "csv_fieldnames cc = enabled_columns cc"
  by (cases cc) (simp_all add: csv_fieldnames_def enabled_columns_def dict_get_def)

lemma writerows_ignoring:
  "writerows True names data = (map (\<lambda>r. map (\<lambda>k. dict_get r k (PStr [])) names) data, None)"
  by (induction data) (simp_all add: dict_to_list_def)

lemma writerows_known_keys:
  "\<forall>r\<in>set data. set (map fst r) \<subseteq> set names \<Longrightarrow>
   writerows False names data = (map (\<lambda>r. map (\<lambda>k. dict_get r k (PStr [])) names) data, None)"
  by (induction data) (auto simp: dict_to_list_def list_ex_iff)

lemma enabled_columns_known:
  "\<forall>col\<in>set all_fieldnames. map_of cc col = map_of cc' col \<Longrightarrow>
   enabled_columns cc = enabled_columns cc'"
  unfolding enabled_columns_def dict_get_def
  by (rule filter_cong) simp_all

lemma collect_keys: "collect fs = Inr row \<Longrightarrow> map fst row = map fst fs"
  by (induction fs arbitrary: row) (auto split: sum.splits)

lemma global_rows_same_keys:
  assumes "create_global_row env app qapp ds rs ps idx cc s = (Return row, s')"
    and "create_global_row env' app' qapp' ds' rs' ps' idx' cc' t = (Return row', t')"
  shows "map fst row = map fst row'"
proof -
  from create_global_row_fields[OF assms(1)]
  obtain att au pe qc qs bpc cm hr orc tc cid uid ci ui sid now row0
    where c: "collect (row_fields env app qapp ds rs ps idx cc att au pe qc qs bpc cm hr orc tc
                      cid uid ci ui sid) = Inr row0"
      and r: "row = row0 @ metadata_fields env ''export_timestamp'' now"
    by blast
  from create_global_row_fields[OF assms(2)]
  obtain att' au' pe' qc' qs' bpc' cm' hr' orc' tc' cid' uid' ci' ui' sid' now' row0'
    where c': "collect (row_fields env' app' qapp' ds' rs' ps' idx' cc' att' au' pe' qc' qs' bpc'
                      cm' hr' orc' tc' cid' uid' ci' ui' sid') = Inr row0'"
      and r': "row' = row0' @ metadata_fields env' ''export_timestamp'' now'"
    by blast
  have "map fst row0 = map fst row0'"
    unfolding collect_keys[OF c] collect_keys[OF c']
    by (simp add: row_fields_def)
  with r r' show ?thesis by (simp add: metadata_fields_def)
qed

lemma keys_dict_set:
  "map fst (dict_set d k v) = (if k \<in> set (map fst d) then map fst d else map fst d @ [k])"
  by (induction d) force+

lemma keys_dict_update: "map fst (dict_update d other) = keys_update (map fst d) (map fst other)"
  unfolding dict_update_def keys_update_def
  by (induction other arbitrary: d) (simp_all add: keys_dict_set)

lemma create_data_row_keys:
  assumes "create_data_row env app qapp s = (Return row, s')"
  shows "map fst row =
           keys_update (keys_update (map fst (data_row_app_fields env app)) (map fst data_row_no_qapp))
             (map fst (metadata_fields env ''retrieval_timestamp'' PNone))"
proof -
  from assms obtain row0 other now where
    c: "collect (data_row_app_fields env app) = Inr row0"
    and o: "other = data_row_no_qapp \<or> collect (data_row_qapp_fields env qapp) = Inr other"
    and r: "row = dict_update (dict_update row0 other)
              (metadata_fields env ''retrieval_timestamp'' now)"
    unfolding create_data_row_def pbind_Return_iff lift_Return_iff
    by (auto simp: pret_Return_iff pbind_Return_iff lift_Return_iff split: if_splits)
  have "map fst (data_row_qapp_fields env qapp) = map fst data_row_no_qapp"
    by (simp add: data_row_qapp_fields_def data_row_no_qapp_def)
  with o collect_keys[of "data_row_qapp_fields env qapp" other]
  have "map fst other = map fst data_row_no_qapp"
    by auto
  with c r show ?thesis
    by (simp add: keys_dict_update collect_keys metadata_fields_def)
qed

lemma data_rows_same_keys:
  assumes "create_data_row env app qapp s = (Return row, s')"
    and "create_data_row env' app' qapp' t = (Return row', t')"
  shows "map fst row = map fst row'"
  unfolding create_data_row_keys[OF assms(1)] create_data_row_keys[OF assms(2)]
  by (simp add: data_row_app_fields_def metadata_fields_def)

text \<open>
  C6, as the code has it. No file is written for an empty record sequence. The enhanced
  exporter writes the columns in the key order of the first record and has no column
  selection. The exporter of get_qapps_info.py writes the 25 field names of its own list,
  in the order of that list, without those that the column configuration maps to a false
  value; what the configuration says about other names has no effect, and keys of a row
  that are not columns are left out. Every line has one cell per column. All rows of
  \<open>_create_global_row\<close> have the same keys in the same order, and so have all rows of
  \<open>_create_data_row\<close>.
\<close>

theorem csv_columns:
  "export_to_csv [] = None \<and>
   export_to_csv_info column_config include_headers [] = None \<and>
   (data \<noteq> [] \<and> (\<forall>r\<in>set data. set (map fst r) \<subseteq> set (map fst (hd data))) \<longrightarrow>
      export_to_csv data =
        Some \<lparr>csv_header = Some (map fst (hd data)),
              csv_lines = map (\<lambda>r. map (\<lambda>k. dict_get r k (PStr [])) (map fst (hd data))) data,
              csv_error = None\<rparr>) \<and>
   (data \<noteq> [] \<longrightarrow>
      export_to_csv_info column_config include_headers data =
        Some \<lparr>csv_header =
                (if include_headers then Some (enabled_columns column_config) else None),
              csv_lines =
                map (\<lambda>r. map (\<lambda>k. dict_get r k (PStr [])) (enabled_columns column_config)) data,
              csv_error = None\<rparr>) \<and>
   ((\<forall>col\<in>set all_fieldnames. map_of column_config col = map_of column_config' col) \<longrightarrow>
      csv_fieldnames column_config = csv_fieldnames column_config') \<and>
   (create_global_row env app qapp ds rs ps idx cc s = (Return row, s') \<and>
    create_global_row env' app' qapp' ds' rs' ps' idx' cc' t = (Return row', t') \<longrightarrow>
      map fst row = map fst row') \<and>
   (create_data_row denv dapp dqapp u = (Return drow, u') \<and>
    create_data_row denv' dapp' dqapp' w = (Return drow', w') \<longrightarrow>
      map fst drow = map fst drow')"
proof -
  have a: "export_to_csv data =
        Some \<lparr>csv_header = Some (map fst (hd data)),
              csv_lines = map (\<lambda>r. map (\<lambda>k. dict_get r k (PStr [])) (map fst (hd data))) data,
              csv_error = None\<rparr>"
    if "data \<noteq> []" and "\<forall>r\<in>set data. set (map fst r) \<subseteq> set (map fst (hd data))"
    using that writerows_known_keys[OF that(2)]
    by (cases data) (simp_all add: export_to_csv_def write_csv_def)
  have b: "export_to_csv_info column_config include_headers data =
        Some \<lparr>csv_header =
                (if include_headers then Some (enabled_columns column_config) else None),
              csv_lines =
                map (\<lambda>r. map (\<lambda>k. dict_get r k (PStr [])) (enabled_columns column_config)) data,
              csv_error = None\<rparr>"
    if "data \<noteq> []"
    using that
    by (simp add: export_to_csv_info_def write_csv_def writerows_ignoring csv_fieldnames_enabled)
  have c: "csv_fieldnames column_config = csv_fieldnames column_config'"
    if "\<forall>col\<in>set all_fieldnames. map_of column_config col = map_of column_config' col"
    using enabled_columns_known[OF that] by (simp add: csv_fieldnames_enabled)
  have d: "map fst row = map fst row'"
    if "create_global_row env app qapp ds rs ps idx cc s = (Return row, s') \<and>
        create_global_row env' app' qapp' ds' rs' ps' idx' cc' t = (Return row', t')"
    using global_rows_same_keys[OF conjunct1[OF that] conjunct2[OF that]] .
  have e: "map fst drow = map fst drow'"
    if "create_data_row denv dapp dqapp u = (Return drow, u') \<and>
        create_data_row denv' dapp' dqapp' w = (Return drow', w')"
    using data_rows_same_keys[OF conjunct1[OF that] conjunct2[OF that]] .
  have f: "export_to_csv [] = None" "export_to_csv_info column_config include_headers [] = None"
    by (simp_all add: export_to_csv_def export_to_csv_info_def)
  from a b c d e f show ?thesis
    by (intro conjI impI) blast+
qed

lemma example_data_row_keys:
  "\<forall>r\<in>set [example_data_row]. set (map fst r) \<subseteq> set (map fst (hd [example_data_row]))"
  by simp

lemma unknown_column_agrees:
  "\<forall>col\<in>set all_fieldnames.
     map_of [(''description'', PBool False), (''no_such_column'', PBool True)] col =
     map_of [(''description'', PBool False)] col"
  by (simp add: all_fieldnames_def)

theorem csv_columns_witness:
  "export_to_csv [example_data_row] =
     Some \<lparr>csv_header = Some (map fst example_data_row),
           csv_lines =
             [map (\<lambda>k. dict_get example_data_row k (PStr [])) (map fst example_data_row)],
           csv_error = None\<rparr> \<and>
   export_to_csv_info [(''description'', PBool False), (''no_such_column'', PBool True)] True
       [example_data_row] =
     Some \<lparr>csv_header =
             Some (enabled_columns
                     [(''description'', PBool False), (''no_such_column'', PBool True)]),
           csv_lines =
             [map (\<lambda>k. dict_get example_data_row k (PStr []))
                (enabled_columns
                   [(''description'', PBool False), (''no_such_column'', PBool True)])],
           csv_error = None\<rparr> \<and>
   length (enabled_columns [(''description'', PBool False), (''no_such_column'', PBool True)]) = 24 \<and>
   csv_fieldnames [(''description'', PBool False), (''no_such_column'', PBool True)] =
     csv_fieldnames [(''description'', PBool False)] \<and>
   (\<exists>row row' s' t'.
      create_global_row (example_env directory_service (PBool True)) (PDict []) PNone
        [] [] [] PNone (PDict []) init_state = (Return row, s') \<and>
      create_global_row (example_env directory_service (PBool True)) app_A
        (PDict [(''libraryItemId'', PStr ''item-1''), (''createdBy'', PStr ''u-1'')])
        [] [] [] PNone (PDict []) init_state = (Return row', t') \<and>
      map fst row = map fst row') \<and>
   (\<exists>row row' s' t'.
      create_data_row (example_env directory_service (PBool True)) (PDict []) PNone init_state =
        (Return row, s') \<and>
      create_data_row (example_env directory_service (PBool True)) app_A
        (PDict [(''libraryItemId'', PStr ''item-1''), (''createdBy'', PStr ''u-1'')])
        init_state = (Return row', t') \<and>
      map fst row = map fst row')"
proof -
  have sh0: "shaped_app (PDict [])" "shaped_qapp PNone"
    by (simp_all add: shaped_app_def shaped_qapp_def absent_or_def)
  have "returns (create_global_row (example_env directory_service (PBool True))
      (PDict []) PNone [] [] [] PNone (PDict [])) init_state"
    by (rule create_global_row_returns)
       (simp_all add: sh0 example_shapes alice_directory_shaped)
  then obtain g1 sg1 where g1: "create_global_row (example_env directory_service (PBool True))
      (PDict []) PNone [] [] [] PNone (PDict []) init_state = (Return g1, sg1)"
    unfolding returns_def by auto
  have "returns (create_global_row (example_env directory_service (PBool True)) app_A
        (PDict [(''libraryItemId'', PStr ''item-1''), (''createdBy'', PStr ''u-1'')])
        [] [] [] PNone (PDict [])) init_state"
    by (rule create_global_row_returns)
       (simp_all add: example_shapes alice_directory_shaped)
  then obtain g2 sg2 where g2: "create_global_row (example_env directory_service (PBool True))
        app_A (PDict [(''libraryItemId'', PStr ''item-1''), (''createdBy'', PStr ''u-1'')])
        [] [] [] PNone (PDict []) init_state = (Return g2, sg2)"
    unfolding returns_def by auto
  have "returns (create_data_row (example_env directory_service (PBool True))
      (PDict []) PNone) init_state"
    by (rule create_data_row_returns) (simp_all add: sh0)
  then obtain d1 sd1 where d1: "create_data_row (example_env directory_service (PBool True))
      (PDict []) PNone init_state = (Return d1, sd1)"
    unfolding returns_def by auto
  have "returns (create_data_row (example_env directory_service (PBool True)) app_A
        (PDict [(''libraryItemId'', PStr ''item-1''), (''createdBy'', PStr ''u-1'')]))
        init_state"
    by (rule create_data_row_returns) (simp_all add: example_shapes)
  then obtain d2 sd2 where d2: "create_data_row (example_env directory_service (PBool True))
        app_A (PDict [(''libraryItemId'', PStr ''item-1''), (''createdBy'', PStr ''u-1'')])
        init_state = (Return d2, sd2)"
    unfolding returns_def by auto
  note th = csv_columns[where data = "[example_data_row]"
      and column_config = "[(''description'', PBool False), (''no_such_column'', PBool True)]"
      and column_config' = "[(''description'', PBool False)]"
      and include_headers = True
      and env = "example_env directory_service (PBool True)" and app = "PDict []"
      and qapp = PNone and ds = "[]" and rs = "[]" and ps = "[]" and idx = PNone
      and cc = "PDict []" and s = init_state and row = g1 and s' = sg1
      and env' = "example_env directory_service (PBool True)" and app' = app_A
      and qapp' = "PDict [(''libraryItemId'', PStr ''item-1''), (''createdBy'', PStr ''u-1'')]"
      and ds' = "[]" and rs' = "[]" and ps' = "[]" and idx' = PNone
      and cc' = "PDict []" and t = init_state and row' = g2 and t' = sg2
      and denv = "example_env directory_service (PBool True)" and dapp = "PDict []"
      and dqapp = PNone and u = init_state and drow = d1 and u' = sd1
      and denv' = "example_env directory_service (PBool True)" and dapp' = app_A
      and dqapp' = "PDict [(''libraryItemId'', PStr ''item-1''), (''createdBy'', PStr ''u-1'')]"
      and w = init_state and drow' = d2 and w' = sd2]
  from th g1 g2 d1 d2 example_data_row_keys unknown_column_agrees
  have main: "export_to_csv [example_data_row] =
     Some \<lparr>csv_header = Some (map fst example_data_row),
           csv_lines =
             [map (\<lambda>k. dict_get example_data_row k (PStr [])) (map fst example_data_row)],
           csv_error = None\<rparr> \<and>
   export_to_csv_info [(''description'', PBool False), (''no_such_column'', PBool True)] True
       [example_data_row] =
     Some \<lparr>csv_header =
             Some (enabled_columns
                     [(''description'', PBool False), (''no_such_column'', PBool True)]),
           csv_lines =
             [map (\<lambda>k. dict_get example_data_row k (PStr []))
                (enabled_columns
                   [(''description'', PBool False), (''no_such_column'', PBool True)])],
           csv_error = None\<rparr> \<and>
   csv_fieldnames [(''description'', PBool False), (''no_such_column'', PBool True)] =
     csv_fieldnames [(''description'', PBool False)] \<and>
   map fst g1 = map fst g2 \<and> map fst d1 = map fst d2"
    by simp
  have len: "length (enabled_columns
      [(''description'', PBool False), (''no_such_column'', PBool True)]) = 24"
    by (simp add: enabled_columns_def all_fieldnames_def dict_get_def)
  from main len g1 g2 d1 d2 show ?thesis by blast
qed

text \<open>
  C6 as it is stated fails in get_qapps_info.py: with the one column
  \<open>user_count\<close> listed in the configuration all 25 columns are written, and without a
  configuration the columns are not in the key order of the first record.
\<close>

theorem csv_allow_list_counterexample:
  "export_to_csv_info [(''user_count'', PBool True)] True [example_data_row] =
     Some \<lparr>csv_header = Some all_fieldnames,
           csv_lines = [map (\<lambda>k. dict_get example_data_row k (PStr [])) all_fieldnames],
           csv_error = None\<rparr> \<and>
   length all_fieldnames = 25 \<and>
   all_fieldnames \<noteq> [''user_count''] \<and>
   export_to_csv_info [] True [example_data_row] =
     Some \<lparr>csv_header = Some all_fieldnames,
           csv_lines = [map (\<lambda>k. dict_get example_data_row k (PStr [])) all_fieldnames],
           csv_error = None\<rparr> \<and>
   all_fieldnames \<noteq> map fst example_data_row"
  by (simp add: export_to_csv_info_def write_csv_def dict_to_list_def csv_fieldnames_def
        all_fieldnames_def dict_get_def example_data_row_def absent_data_row_def
        data_row_no_qapp_def NA_def)

end
